theory Spec2Isabelle
  imports Main "HOL-Library.Word" "HOL-Library.AList"
begin

section \<open>The NVIDIA GPU exporter: one collection cycle\<close>

text \<open>
  The development embeds \<^verbatim>\<open>Exporter.Collect\<close> of \<^verbatim>\<open>nvidia_gpu_exporter.go\<close>.
  One call of \<^verbatim>\<open>Collect\<close> is a function from the telemetry library's answers and the
  exporter's state before the call to the state after it and the metrics sent on the
  channel \<^verbatim>\<open>ch\<close>, in the order they are sent.

  Not modelled: the logger (each failure writes one log line and nothing reads it back),
  the HTTP server and \<^verbatim>\<open>main\<close>. The mutex is held for the whole call, so the body is
  modelled as one atomic function; what the mutex does between two callers is outside
  this embedding.
\<close>

subsection \<open>The telemetry library (go-nvml), as seen by the exporter\<close>

text \<open>
  \<^verbatim>\<open>nvml.Return\<close> is an \<^verbatim>\<open>int32\<close>; \<^verbatim>\<open>nvml.SUCCESS\<close> is 0 and every other value is an
  error code. Every query returns a pair of a value and a \<^verbatim>\<open>Return\<close>, as in Go; the
  value of a failed query is whatever the library left there.
\<close>

type_synonym Return = "32 word"

abbreviation SUCCESS :: Return where
  "SUCCESS \<equiv> 0"

text \<open>A device handle is opaque to the exporter.\<close>

type_synonym Device = nat

record Memory =
  Total :: "64 word"
  Free :: "64 word"
  Used :: "64 word"

record Utilization =
  Gpu :: "32 word"
  Memory :: "32 word"

datatype TemperatureSensors = TEMPERATURE_GPU | TEMPERATURE_COUNT

text \<open>
  The library's answers during one cycle, as functions of the arguments of each query:
  a cycle asks for the driver version and the count once, and for each index once for
  its handle and once for each property of that handle. The answers of another cycle are
  another record. Go's \<^verbatim>\<open>int\<close> is modelled as \<open>int\<close>: the exporter only compares,
  increments below the count and prints these numbers. The methods of a \<^verbatim>\<open>nvml.Device\<close>
  take the handle as their first argument.
\<close>

record nvml =
  SystemGetDriverVersion :: "string \<times> Return"
  DeviceGetCount :: "int \<times> Return"
  DeviceGetHandleByIndex :: "int \<Rightarrow> Device \<times> Return"
  GetMinorNumber :: "Device \<Rightarrow> int \<times> Return"
  GetUUID :: "Device \<Rightarrow> string \<times> Return"
  GetName :: "Device \<Rightarrow> string \<times> Return"
  GetMemoryInfo :: "Device \<Rightarrow> Memory \<times> Return"
  GetUtilizationRates :: "Device \<Rightarrow> Utilization \<times> Return"
  GetPowerUsage :: "Device \<Rightarrow> 32 word \<times> Return"
  GetTemperature :: "Device \<Rightarrow> TemperatureSensors \<Rightarrow> 32 word \<times> Return"
  GetFanSpeed :: "Device \<Rightarrow> 32 word \<times> Return"

subsection \<open>Go's \<^verbatim>\<open>strconv.Itoa\<close>\<close>

text \<open>Decimal digits, most significant first, with a minus sign for a negative number.\<close>

definition digit :: "nat \<Rightarrow> char" where
  "digit d = ''0123456789'' ! (d mod 10)"

fun FormatUint :: "nat \<Rightarrow> string" where
  "FormatUint n = (if n < 10 then [digit n] else FormatUint (n div 10) @ [digit (n mod 10)])"

definition Itoa :: "int \<Rightarrow> string" where
  "Itoa i = (if i < 0 then CHR ''-'' # FormatUint (nat (- i)) else FormatUint (nat i))"

subsection \<open>The metrics library (Prometheus client), as seen by the exporter\<close>

text \<open>
  A metric sent on the channel: the fully qualified name of its descriptor, its label
  values and its value. Values are \<^verbatim>\<open>float64\<close> in Go; here the value type is a
  parameter \<open>'v\<close>, and the conversion \<^verbatim>\<open>float64(x)\<close> of an integer is a parameter
  \<open>float64 :: int \<Rightarrow> 'v\<close> of the cycle, so nothing is assumed of floating point.
\<close>

datatype 'v Metric = Metric (desc_name: string) (labelValues: "string list") (val: 'v)

definition namespace :: string where
  "namespace = ''nvidia_gpu''"

definition BuildFQName :: "string \<Rightarrow> string \<Rightarrow> string \<Rightarrow> string" where
  "BuildFQName ns subsystem name =
     (if name = [] then []
      else if ns \<noteq> [] \<and> subsystem \<noteq> [] then ns @ ''_'' @ subsystem @ ''_'' @ name
      else if ns \<noteq> [] then ns @ ''_'' @ name
      else if subsystem \<noteq> [] then subsystem @ ''_'' @ name
      else name)"

text \<open>The six device-scoped gauge vectors of the \<^verbatim>\<open>Exporter\<close> struct.\<close>

datatype kind = UsedMemory | TotalMemory | DutyCycle | PowerUsage | Temperature | FanSpeed

text \<open>The descriptors of \<^verbatim>\<open>NewExporter\<close>: created once, never changed.\<close>

definition gpuInfo :: string where
  "gpuInfo = BuildFQName namespace [] ''gpu_info''"

definition numDevices_name :: string where
  "numDevices_name = BuildFQName namespace [] ''num_devices''"

fun vec_name :: "kind \<Rightarrow> string" where
  "vec_name UsedMemory = BuildFQName namespace [] ''memory_used_bytes''"
| "vec_name TotalMemory = BuildFQName namespace [] ''memory_total_bytes''"
| "vec_name DutyCycle = BuildFQName namespace [] ''duty_cycle''"
| "vec_name PowerUsage = BuildFQName namespace [] ''power_usage_milliwatts''"
| "vec_name Temperature = BuildFQName namespace [] ''temperature_celsius''"
| "vec_name FanSpeed = BuildFQName namespace [] ''fanspeed_percent''"

text \<open>
  Modelled from the spec: the Prometheus client library is not part of the repository.
  Section 4.1 of the specification gives the three operations the exporter uses on a
  gauge vector: \<^verbatim>\<open>reset(kind)\<close> "clears the device-scoped mapping",
  \<^verbatim>\<open>set(kind, labelTuple, value)\<close> "upserts one entry; overwrites if called twice with
  the same label tuple", and \<^verbatim>\<open>snapshot()\<close> "produces the full current state for
  emission". A gauge vector is an association list from label values to the value; the
  order in which \<^verbatim>\<open>GaugeVec.Collect\<close> sends its entries is not fixed by the library,
  the list order here is one possible order, and the theorems below speak of the set of
  sent metrics only. The label values coming from the telemetry library are taken to
  be accepted by the metrics library.
\<close>

type_synonym 'v GaugeVec = "(string list \<times> 'v) list"

definition Reset :: "'v GaugeVec \<Rightarrow> 'v GaugeVec" where
  "Reset v = []"

definition WithLabelValues_Set :: "'v GaugeVec \<Rightarrow> string list \<Rightarrow> 'v \<Rightarrow> 'v GaugeVec" where
  "WithLabelValues_Set v lvs x = AList.update lvs x v"

definition Collect_vec :: "string \<Rightarrow> 'v GaugeVec \<Rightarrow> 'v Metric list" where
  "Collect_vec name v = map (\<lambda>(lvs, x). Metric name lvs x) v"

datatype ValueType = CounterValue | GaugeValue | UntypedValue

definition MustNewConstMetric :: "string \<Rightarrow> ValueType \<Rightarrow> 'v \<Rightarrow> string list \<Rightarrow> 'v Metric" where
  "MustNewConstMetric desc valueType x lvs = Metric desc lvs x"

subsection \<open>The exporter\<close>

text \<open>
  The mutable part of the \<^verbatim>\<open>Exporter\<close> struct: the value of the \<^verbatim>\<open>numDevices\<close> gauge
  and the six gauge vectors. It lives as long as the process and is passed from one cycle
  to the next.
\<close>

record 'v Exporter =
  numDevices :: "'v"
  usedMemory :: "'v GaugeVec"
  totalMemory :: "'v GaugeVec"
  dutyCycle :: "'v GaugeVec"
  powerUsage :: "'v GaugeVec"
  temperature :: "'v GaugeVec"
  fanSpeed :: "'v GaugeVec"

text \<open>\<^verbatim>\<open>NewExporter\<close>: a new gauge reads 0 and a new gauge vector is empty.\<close>

definition NewExporter :: "(int \<Rightarrow> 'v) \<Rightarrow> 'v Exporter" where
  "NewExporter float64 =
     \<lparr>numDevices = float64 0, usedMemory = [], totalMemory = [], dutyCycle = [],
      powerUsage = [], temperature = [], fanSpeed = []\<rparr>"

text \<open>
  The body of the loop over the device indices (lines 154 to 218). A \<^verbatim>\<open>continue\<close>
  leaves the exporter as it is; the five telemetry queries follow one another, each with
  its own test of the return code.
\<close>

definition Collect_body :: "(int \<Rightarrow> 'v) \<Rightarrow> nvml \<Rightarrow> int \<Rightarrow> 'v Exporter \<Rightarrow> 'v Exporter" where
  "Collect_body float64 lib i e =
     (let (device, ret) = DeviceGetHandleByIndex lib i in
      if ret \<noteq> SUCCESS then e
      else
        let (minorNumber, ret) = GetMinorNumber lib device in
        if ret \<noteq> SUCCESS then e
        else
          let minor = Itoa minorNumber;
              (uuid, ret) = GetUUID lib device in
          if ret \<noteq> SUCCESS then e
          else
            let (name, ret) = GetName lib device in
            if ret \<noteq> SUCCESS then e
            else
              let (memoryInfo, ret) = GetMemoryInfo lib device;
                  e = (if ret \<noteq> SUCCESS then e
                       else e\<lparr>usedMemory := WithLabelValues_Set (usedMemory e) [minor, uuid, name]
                                               (float64 (uint (Used memoryInfo))),
                              totalMemory := WithLabelValues_Set (totalMemory e) [minor, uuid, name]
                                               (float64 (uint (Total memoryInfo)))\<rparr>);
                  (utilization, ret) = GetUtilizationRates lib device;
                  e = (if ret \<noteq> SUCCESS then e
                       else e\<lparr>dutyCycle := WithLabelValues_Set (dutyCycle e) [minor, uuid, name]
                                              (float64 (uint (Gpu utilization)))\<rparr>);
                  (power, ret) = GetPowerUsage lib device;
                  e = (if ret \<noteq> SUCCESS then e
                       else e\<lparr>powerUsage := WithLabelValues_Set (powerUsage e) [minor, uuid, name]
                                               (float64 (uint power))\<rparr>);
                  (temp, ret) = GetTemperature lib device TEMPERATURE_GPU;
                  e = (if ret \<noteq> SUCCESS then e
                       else e\<lparr>temperature := WithLabelValues_Set (temperature e) [minor, uuid, name]
                                                (float64 (uint temp))\<rparr>);
                  (fan, ret) = GetFanSpeed lib device;
                  e = (if ret \<noteq> SUCCESS then e
                       else e\<lparr>fanSpeed := WithLabelValues_Set (fanSpeed e) [minor, uuid, name]
                                             (float64 (uint fan))\<rparr>)
              in e)"

text \<open>The loop \<^verbatim>\<open>for i := 0; i < int(numDevices); i++\<close>, from index \<open>i\<close> on.\<close>

function Collect_loop :: "(int \<Rightarrow> 'v) \<Rightarrow> nvml \<Rightarrow> int \<Rightarrow> int \<Rightarrow> 'v Exporter \<Rightarrow> 'v Exporter" where
  "Collect_loop float64 lib i n e =
     (if i < n then Collect_loop float64 lib (i + 1) n (Collect_body float64 lib i e) else e)"
  by pat_completeness auto
termination
  by (relation "measure (\<lambda>(float64, lib, i, n, e). nat (n - i))") auto

declare Collect_loop.simps [simp del]

text \<open>
  \<^verbatim>\<open>Collect\<close> (lines 127 to 227). The result is the exporter after the call and the
  metrics sent on \<^verbatim>\<open>ch\<close>. The \<^verbatim>\<open>numDevices\<close> gauge is sent right after it is set, and
  is read here with the value it has then.
\<close>

definition Exporter_Collect :: "(int \<Rightarrow> 'v) \<Rightarrow> nvml \<Rightarrow> 'v Exporter \<Rightarrow> 'v Exporter \<times> 'v Metric list" where
  "Exporter_Collect float64 lib e0 =
     (let e = e0\<lparr>usedMemory := Reset (usedMemory e0),
                 totalMemory := Reset (totalMemory e0),
                 dutyCycle := Reset (dutyCycle e0),
                 powerUsage := Reset (powerUsage e0),
                 temperature := Reset (temperature e0),
                 fanSpeed := Reset (fanSpeed e0)\<rparr>;
          (driverVersion, ret) = SystemGetDriverVersion lib;
          ch = (if ret \<noteq> SUCCESS then []
                else [MustNewConstMetric gpuInfo GaugeValue (float64 1) [driverVersion]]);
          (count, ret) = DeviceGetCount lib
      in if ret \<noteq> SUCCESS then (e, ch)
         else
           let e = e\<lparr>numDevices := float64 count\<rparr>;
               ch = ch @ [Metric numDevices_name [] (numDevices e)];
               e = Collect_loop float64 lib 0 count e;
               ch = ch @ Collect_vec (vec_name UsedMemory) (usedMemory e);
               ch = ch @ Collect_vec (vec_name TotalMemory) (totalMemory e);
               ch = ch @ Collect_vec (vec_name DutyCycle) (dutyCycle e);
               ch = ch @ Collect_vec (vec_name PowerUsage) (powerUsage e);
               ch = ch @ Collect_vec (vec_name Temperature) (temperature e);
               ch = ch @ Collect_vec (vec_name FanSpeed) (fanSpeed e)
           in (e, ch))"

subsection \<open>The cycle in the words of the specification\<close>

text \<open>
  A successfully identified device: an index whose handle, minor
  number, UUID and name queries all succeed, with the handle and the label values
  \<^verbatim>\<open>(minor_number, uuid, name)\<close> it is given.
\<close>

definition identity :: "nvml \<Rightarrow> int \<Rightarrow> (Device \<times> string list) option" where
  "identity lib i =
     (let (device, r0) = DeviceGetHandleByIndex lib i;
          (minorNumber, r1) = GetMinorNumber lib device;
          (uuid, r2) = GetUUID lib device;
          (name, r3) = GetName lib device
      in if r0 = SUCCESS \<and> r1 = SUCCESS \<and> r2 = SUCCESS \<and> r3 = SUCCESS
         then Some (device, [Itoa minorNumber, uuid, name]) else None)"

text \<open>The five telemetry queries behind the six device-scoped metrics.\<close>

datatype query = MemoryInfo | UtilizationRates | PowerUsageQuery | TemperatureQuery | FanSpeedQuery

fun query_of :: "kind \<Rightarrow> query" where
  "query_of UsedMemory = MemoryInfo"
| "query_of TotalMemory = MemoryInfo"
| "query_of DutyCycle = UtilizationRates"
| "query_of PowerUsage = PowerUsageQuery"
| "query_of Temperature = TemperatureQuery"
| "query_of FanSpeed = FanSpeedQuery"

fun query_ok :: "nvml \<Rightarrow> Device \<Rightarrow> query \<Rightarrow> bool" where
  "query_ok lib device MemoryInfo = (snd (GetMemoryInfo lib device) = SUCCESS)"
| "query_ok lib device UtilizationRates = (snd (GetUtilizationRates lib device) = SUCCESS)"
| "query_ok lib device PowerUsageQuery = (snd (GetPowerUsage lib device) = SUCCESS)"
| "query_ok lib device TemperatureQuery = (snd (GetTemperature lib device TEMPERATURE_GPU) = SUCCESS)"
| "query_ok lib device FanSpeedQuery = (snd (GetFanSpeed lib device) = SUCCESS)"

text \<open>The value a device reports for one metric, when the query behind it succeeds.\<close>

fun field_value :: "(int \<Rightarrow> 'v) \<Rightarrow> nvml \<Rightarrow> Device \<Rightarrow> kind \<Rightarrow> 'v option" where
  "field_value float64 lib device UsedMemory =
     (if snd (GetMemoryInfo lib device) = SUCCESS
      then Some (float64 (uint (Used (fst (GetMemoryInfo lib device))))) else None)"
| "field_value float64 lib device TotalMemory =
     (if snd (GetMemoryInfo lib device) = SUCCESS
      then Some (float64 (uint (Total (fst (GetMemoryInfo lib device))))) else None)"
| "field_value float64 lib device DutyCycle =
     (if snd (GetUtilizationRates lib device) = SUCCESS
      then Some (float64 (uint (Gpu (fst (GetUtilizationRates lib device))))) else None)"
| "field_value float64 lib device PowerUsage =
     (if snd (GetPowerUsage lib device) = SUCCESS
      then Some (float64 (uint (fst (GetPowerUsage lib device)))) else None)"
| "field_value float64 lib device Temperature =
     (if snd (GetTemperature lib device TEMPERATURE_GPU) = SUCCESS
      then Some (float64 (uint (fst (GetTemperature lib device TEMPERATURE_GPU)))) else None)"
| "field_value float64 lib device FanSpeed =
     (if snd (GetFanSpeed lib device) = SUCCESS
      then Some (float64 (uint (fst (GetFanSpeed lib device)))) else None)"

text \<open>What index \<open>i\<close> contributes to the vector of kind \<open>k\<close>: nothing, or one entry.\<close>

definition reading :: "(int \<Rightarrow> 'v) \<Rightarrow> nvml \<Rightarrow> int \<Rightarrow> kind \<Rightarrow> (string list \<times> 'v) option" where
  "reading float64 lib i k =
     (case identity lib i of
        None \<Rightarrow> None
      | Some (device, lvs) \<Rightarrow>
          (case field_value float64 lib device k of None \<Rightarrow> None | Some x \<Rightarrow> Some (lvs, x)))"

text \<open>The gauge vector of a kind, in the exporter.\<close>

fun vec :: "kind \<Rightarrow> 'v Exporter \<Rightarrow> 'v GaugeVec" where
  "vec UsedMemory e = usedMemory e"
| "vec TotalMemory e = totalMemory e"
| "vec DutyCycle e = dutyCycle e"
| "vec PowerUsage e = powerUsage e"
| "vec Temperature e = temperature e"
| "vec FanSpeed e = fanSpeed e"

text \<open>The values sent for the series of kind \<open>k\<close> with label values \<open>lvs\<close>.\<close>

definition series :: "'v Metric list \<Rightarrow> kind \<Rightarrow> string list \<Rightarrow> 'v set" where
  "series ch k lvs = {x. Metric (vec_name k) lvs x \<in> set ch}"

text \<open>The metrics of a stream that belong to the six device-scoped vectors.\<close>

definition device_scoped :: "'v Metric list \<Rightarrow> 'v Metric list" where
  "device_scoped ch = filter (\<lambda>m. desc_name m \<in> vec_name ` UNIV) ch"

text \<open>
  A stream is well formed when no two of its metrics have the same descriptor and the
  same label values: this is what the registry checks when it gathers.
\<close>

definition well_formed :: "'v Metric list \<Rightarrow> bool" where
  "well_formed ch = distinct (map (\<lambda>m. (desc_name m, labelValues m)) ch)"

text \<open>
  The telemetry part of the loop body, split into its five steps. The steps are the
  five \<^verbatim>\<open>if ret != nvml.SUCCESS { ... } else { ... }\<close> blocks of lines 179 to 218.
\<close>

definition set_memory :: "(int \<Rightarrow> 'v) \<Rightarrow> nvml \<Rightarrow> Device \<Rightarrow> string list \<Rightarrow> 'v Exporter \<Rightarrow> 'v Exporter" where
  "set_memory float64 lib device lvs e =
     (if snd (GetMemoryInfo lib device) \<noteq> SUCCESS then e
      else e\<lparr>usedMemory := WithLabelValues_Set (usedMemory e) lvs
                              (float64 (uint (Used (fst (GetMemoryInfo lib device))))),
             totalMemory := WithLabelValues_Set (totalMemory e) lvs
                              (float64 (uint (Total (fst (GetMemoryInfo lib device)))))\<rparr>)"

definition set_dutyCycle :: "(int \<Rightarrow> 'v) \<Rightarrow> nvml \<Rightarrow> Device \<Rightarrow> string list \<Rightarrow> 'v Exporter \<Rightarrow> 'v Exporter" where
  "set_dutyCycle float64 lib device lvs e =
     (if snd (GetUtilizationRates lib device) \<noteq> SUCCESS then e
      else e\<lparr>dutyCycle := WithLabelValues_Set (dutyCycle e) lvs
                              (float64 (uint (Gpu (fst (GetUtilizationRates lib device)))))\<rparr>)"

definition set_powerUsage :: "(int \<Rightarrow> 'v) \<Rightarrow> nvml \<Rightarrow> Device \<Rightarrow> string list \<Rightarrow> 'v Exporter \<Rightarrow> 'v Exporter" where
  "set_powerUsage float64 lib device lvs e =
     (if snd (GetPowerUsage lib device) \<noteq> SUCCESS then e
      else e\<lparr>powerUsage := WithLabelValues_Set (powerUsage e) lvs
                              (float64 (uint (fst (GetPowerUsage lib device))))\<rparr>)"

definition set_temperature :: "(int \<Rightarrow> 'v) \<Rightarrow> nvml \<Rightarrow> Device \<Rightarrow> string list \<Rightarrow> 'v Exporter \<Rightarrow> 'v Exporter" where
  "set_temperature float64 lib device lvs e =
     (if snd (GetTemperature lib device TEMPERATURE_GPU) \<noteq> SUCCESS then e
      else e\<lparr>temperature := WithLabelValues_Set (temperature e) lvs
                              (float64 (uint (fst (GetTemperature lib device TEMPERATURE_GPU))))\<rparr>)"

definition set_fanSpeed :: "(int \<Rightarrow> 'v) \<Rightarrow> nvml \<Rightarrow> Device \<Rightarrow> string list \<Rightarrow> 'v Exporter \<Rightarrow> 'v Exporter" where
  "set_fanSpeed float64 lib device lvs e =
     (if snd (GetFanSpeed lib device) \<noteq> SUCCESS then e
      else e\<lparr>fanSpeed := WithLabelValues_Set (fanSpeed e) lvs
                              (float64 (uint (fst (GetFanSpeed lib device))))\<rparr>)"

definition set_fields :: "(int \<Rightarrow> 'v) \<Rightarrow> nvml \<Rightarrow> Device \<Rightarrow> string list \<Rightarrow> 'v Exporter \<Rightarrow> 'v Exporter" where
  "set_fields float64 lib device lvs e =
     set_fanSpeed float64 lib device lvs
       (set_temperature float64 lib device lvs
         (set_powerUsage float64 lib device lvs
           (set_dutyCycle float64 lib device lvs
             (set_memory float64 lib device lvs e))))"

text \<open>The exporter right after the six \<^verbatim>\<open>Reset\<close> calls of lines 131 to 136.\<close>

definition reset_all :: "'v Exporter \<Rightarrow> 'v Exporter" where
  "reset_all e =
     e\<lparr>usedMemory := [], totalMemory := [], dutyCycle := [],
       powerUsage := [], temperature := [], fanSpeed := []\<rparr>"

text \<open>The metrics sent for the driver version (lines 138 to 143).\<close>

definition info_part :: "(int \<Rightarrow> 'v) \<Rightarrow> nvml \<Rightarrow> 'v Metric list" where
  "info_part float64 lib =
     (if snd (SystemGetDriverVersion lib) \<noteq> SUCCESS then []
      else [MustNewConstMetric gpuInfo GaugeValue (float64 1) [fst (SystemGetDriverVersion lib)]])"

text \<open>The exporter at the end of a cycle whose device count query succeeded.\<close>

definition final :: "(int \<Rightarrow> 'v) \<Rightarrow> nvml \<Rightarrow> 'v Exporter \<Rightarrow> 'v Exporter" where
  "final float64 lib e =
     Collect_loop float64 lib 0 (fst (DeviceGetCount lib))
       ((reset_all e)\<lparr>numDevices := float64 (fst (DeviceGetCount lib))\<rparr>)"

text \<open>What a contribution writes under the label values \<open>lvs\<close>.\<close>

definition writes :: "string list \<Rightarrow> (string list \<times> 'v) option \<Rightarrow> 'v option" where
  "writes lvs r = (case r of None \<Rightarrow> None | Some (l, x) \<Rightarrow> if l = lvs then Some x else None)"

text \<open>The six kinds, in the order in which \<^verbatim>\<open>Collect\<close> sends their vectors.\<close>

definition all_kinds :: "kind list" where
  "all_kinds = [UsedMemory, TotalMemory, DutyCycle, PowerUsage, Temperature, FanSpeed]"

text \<open>
  Two libraries that answer alike except, possibly, to the five telemetry queries on
  one device handle.
\<close>

definition same_but_telemetry :: "Device \<Rightarrow> nvml \<Rightarrow> nvml \<Rightarrow> bool" where
  "same_but_telemetry device lib lib' \<longleftrightarrow>
     SystemGetDriverVersion lib' = SystemGetDriverVersion lib \<and>
     DeviceGetCount lib' = DeviceGetCount lib \<and>
     DeviceGetHandleByIndex lib' = DeviceGetHandleByIndex lib \<and>
     GetMinorNumber lib' = GetMinorNumber lib \<and>
     GetUUID lib' = GetUUID lib \<and>
     GetName lib' = GetName lib \<and>
     (\<forall>d. d \<noteq> device \<longrightarrow>
        GetMemoryInfo lib' d = GetMemoryInfo lib d \<and>
        GetUtilizationRates lib' d = GetUtilizationRates lib d \<and>
        GetPowerUsage lib' d = GetPowerUsage lib d \<and>
        GetTemperature lib' d TEMPERATURE_GPU = GetTemperature lib d TEMPERATURE_GPU \<and>
        GetFanSpeed lib' d = GetFanSpeed lib d)"

subsection \<open>Example answers of the telemetry library\<close>

text \<open>
  Two devices with handles 10 and 11, every query succeeding. Device 0 is the one of the
  end-to-end example of the specification (section 8). The error codes are NVML's: 2 is
  \<^verbatim>\<open>ERROR_INVALID_ARGUMENT\<close>, 3 is \<^verbatim>\<open>ERROR_NOT_SUPPORTED\<close>, 999 is \<^verbatim>\<open>ERROR_UNKNOWN\<close>.
\<close>

definition lib_ok :: nvml where
  "lib_ok =
     \<lparr>SystemGetDriverVersion = (''535.104.05'', SUCCESS),
      DeviceGetCount = (2, SUCCESS),
      DeviceGetHandleByIndex =
        (\<lambda>i. if i = 0 then (10, SUCCESS) else if i = 1 then (11, SUCCESS) else (0, 2)),
      GetMinorNumber =
        (\<lambda>d. if d = 10 then (0, SUCCESS) else if d = 11 then (1, SUCCESS) else (0, 2)),
      GetUUID =
        (\<lambda>d. if d = 10 then (''GPU-A'', SUCCESS) else if d = 11 then (''GPU-B'', SUCCESS)
             else ([], 2)),
      GetName = (\<lambda>d. if d = 10 \<or> d = 11 then (''X'', SUCCESS) else ([], 2)),
      GetMemoryInfo =
        (\<lambda>d. if d = 10 then (\<lparr>Total = 1000, Free = 900, Used = 100\<rparr>, SUCCESS)
             else if d = 11 then (\<lparr>Total = 2000, Free = 1800, Used = 200\<rparr>, SUCCESS)
             else (\<lparr>Total = 0, Free = 0, Used = 0\<rparr>, 2)),
      GetUtilizationRates =
        (\<lambda>d. if d = 10 then (\<lparr>Gpu = 50, Memory = 10\<rparr>, SUCCESS)
             else if d = 11 then (\<lparr>Gpu = 75, Memory = 20\<rparr>, SUCCESS)
             else (\<lparr>Gpu = 0, Memory = 0\<rparr>, 2)),
      GetPowerUsage =
        (\<lambda>d. if d = 10 then (5000, SUCCESS) else if d = 11 then (6000, SUCCESS) else (0, 2)),
      GetTemperature =
        (\<lambda>d s. if d = 10 then (60, SUCCESS) else if d = 11 then (65, SUCCESS) else (0, 2)),
      GetFanSpeed =
        (\<lambda>d. if d = 10 then (30, SUCCESS) else if d = 11 then (40, SUCCESS) else (0, 2))\<rparr>"

text \<open>The end-to-end example: the fan speed of device 1 is not supported.\<close>

definition lib_fan :: nvml where
  "lib_fan = lib_ok\<lparr>GetFanSpeed := (\<lambda>d. if d = 11 then (0, 3) else GetFanSpeed lib_ok d)\<rparr>"

text \<open>One device, whose memory information cannot be read; every other query succeeds.\<close>

definition lib_mem :: nvml where
  "lib_mem =
     lib_ok\<lparr>DeviceGetCount := (1, SUCCESS),
            GetMemoryInfo := (\<lambda>d. (\<lparr>Total = 0, Free = 0, Used = 0\<rparr>, 999))\<rparr>"

text \<open>Device 1 has gone: the count is 1.\<close>

definition lib_one :: nvml where
  "lib_one = lib_ok\<lparr>DeviceGetCount := (1, SUCCESS)\<rparr>"

text \<open>
  Two indices with the same minor number, UUID and name; the fan speed of the first
  cannot be read, the fan speed of the second can.
\<close>

definition lib_twin :: nvml where
  "lib_twin =
     lib_ok\<lparr>GetMinorNumber := (\<lambda>d. (0, SUCCESS)),
            GetUUID := (\<lambda>d. (''GPU-A'', SUCCESS)),
            GetFanSpeed := (\<lambda>d. if d = 10 then (0, 3) else (40, SUCCESS))\<rparr>"

text \<open>The device count cannot be read.\<close>

definition lib_count :: nvml where
  "lib_count = lib_ok\<lparr>DeviceGetCount := (0, 999)\<rparr>"

text \<open>Neither the device count nor the driver version can be read.\<close>

definition lib_down :: nvml where
  "lib_down = lib_count\<lparr>SystemGetDriverVersion := ([], 999)\<rparr>"

text \<open>Two devices are counted; the UUID of device 0 and the handle of device 1 fail.\<close>

definition lib_skip :: nvml where
  "lib_skip =
     lib_ok\<lparr>DeviceGetHandleByIndex := (\<lambda>i. if i = 0 then (10, SUCCESS) else (0, 2)),
            GetUUID := (\<lambda>d. ([], 999))\<rparr>"

text \<open>Two devices are counted; the name of device 0 fails, device 1 is as in \<open>lib_ok\<close>.\<close>

definition lib_name :: nvml where
  "lib_name = lib_ok\<lparr>GetName := (\<lambda>d. if d = 11 then (''X'', SUCCESS) else ([], 999))\<rparr>"

text \<open>
  The exporter after a cycle that saw the two devices of \<open>lib_ok\<close>. In the examples the
  metric values are the integers themselves: \<open>float64\<close> is the identity on \<open>int\<close>.
\<close>

definition e_prev :: "int Exporter" where
  "e_prev = fst (Exporter_Collect id lib_ok (NewExporter id))"

section \<open>Properties of the collection cycle\<close>

subsection \<open>The loop body\<close>

declare vec_name.simps [simp del]

lemma Collect_body_fields:
  "Collect_body float64 lib i e =
     (let (device, ret) = DeviceGetHandleByIndex lib i in
      if ret \<noteq> SUCCESS then e
      else
        let (minorNumber, ret) = GetMinorNumber lib device in
        if ret \<noteq> SUCCESS then e
        else
          let minor = Itoa minorNumber;
              (uuid, ret) = GetUUID lib device in
          if ret \<noteq> SUCCESS then e
          else
            let (name, ret) = GetName lib device in
            if ret \<noteq> SUCCESS then e
            else set_fields float64 lib device [minor, uuid, name] e)"
  unfolding Collect_body_def set_fields_def set_fanSpeed_def set_temperature_def
    set_powerUsage_def set_dutyCycle_def set_memory_def
  by (simp only: Let_def split_beta)

lemma Collect_body_identity:
  "Collect_body float64 lib i e =
     (case identity lib i of None \<Rightarrow> e | Some (device, lvs) \<Rightarrow> set_fields float64 lib device lvs e)"
  unfolding Collect_body_fields identity_def 
  by (simp add: Let_def split_beta)

lemma vec_set_fields:
  "vec k (set_fields float64 lib device lvs e) =
     (case field_value float64 lib device k of
        None \<Rightarrow> vec k e
      | Some x \<Rightarrow> WithLabelValues_Set (vec k e) lvs x)"
  by (cases k)
    (simp_all add: set_fields_def set_fanSpeed_def set_temperature_def
      set_powerUsage_def set_dutyCycle_def set_memory_def)

lemma numDevices_set_fields:
  "numDevices (set_fields float64 lib device lvs e) = numDevices e"
  by (simp add: set_fields_def set_fanSpeed_def set_temperature_def
      set_powerUsage_def set_dutyCycle_def set_memory_def)

lemma vec_Collect_body:
  "vec k (Collect_body float64 lib i e) =
     (case reading float64 lib i k of
        None \<Rightarrow> vec k e
      | Some (lvs, x) \<Rightarrow> WithLabelValues_Set (vec k e) lvs x)"
  by (simp add: Collect_body_identity reading_def vec_set_fields split: option.splits)

lemma numDevices_Collect_body:
  "numDevices (Collect_body float64 lib i e) = numDevices e"
  by (simp add: Collect_body_identity numDevices_set_fields split: option.splits)

lemma numDevices_Collect_loop:
  "numDevices (Collect_loop float64 lib i n e) = numDevices e"
proof (induction float64 lib i n e rule: Collect_loop.induct)
  case (1 float64 lib i n e)
  then show ?case
    by (subst Collect_loop.simps) (simp add: numDevices_Collect_body)
qed

lemma range_split:
  fixes i n :: int
  assumes "i < n"
  shows "{a. \<exists>j x. i \<le> j \<and> j < n \<and> R j = Some (a, x)} =
         {a. \<exists>x. R i = Some (a, x)} \<union> {a. \<exists>j x. i + 1 \<le> j \<and> j < n \<and> R j = Some (a, x)}"
proof -
  have "\<And>j P. (i \<le> j \<and> j < n \<and> P) = (j = i \<and> P \<or> (i + 1 \<le> j \<and> j < n \<and> P))"
    using assms by auto
  then show ?thesis by (simp only:) blast
qed

lemma range_split':
  fixes i n :: int
  assumes "i < n"
  shows "{a. \<exists>j. i \<le> j \<and> j < n \<and> R j = Some a} =
         {a. R i = Some a} \<union> {a. \<exists>j. i + 1 \<le> j \<and> j < n \<and> R j = Some a}"
proof -
  have "\<And>j P. (i \<le> j \<and> j < n \<and> P) = (j = i \<and> P \<or> (i + 1 \<le> j \<and> j < n \<and> P))"
    using assms by auto
  then show ?thesis by (simp only:) blast
qed

lemma set_update_subset: "set (AList.update k v al) \<subseteq> insert (k, v) (set al)"
  by (induction al) auto

lemma keys_Collect_body:
  "fst ` set (vec k (Collect_body float64 lib i e)) =
     fst ` set (vec k e) \<union> {lvs. \<exists>x. reading float64 lib i k = Some (lvs, x)}"
  by (auto simp: vec_Collect_body WithLabelValues_Set_def dom_update split: option.splits)

lemma entries_Collect_body:
  "set (vec k (Collect_body float64 lib i e)) \<subseteq>
     set (vec k e) \<union> {a. reading float64 lib i k = Some a}"
  using set_update_subset
  by (fastforce simp: vec_Collect_body WithLabelValues_Set_def split: option.splits)

lemma distinct_Collect_body:
  "distinct (map fst (vec k e)) \<Longrightarrow> distinct (map fst (vec k (Collect_body float64 lib i e)))"
  by (simp add: vec_Collect_body WithLabelValues_Set_def distinct_update split: option.splits)

lemma map_of_Collect_body:
  "map_of (vec k (Collect_body float64 lib i e)) lvs =
     (case writes lvs (reading float64 lib i k) of
        None \<Rightarrow> map_of (vec k e) lvs
      | Some x \<Rightarrow> Some x)"
  by (simp add: vec_Collect_body WithLabelValues_Set_def writes_def update_conv'
      split: option.splits)

lemma keys_Collect_loop:
  "fst ` set (vec k (Collect_loop float64 lib i n e)) =
     fst ` set (vec k e) \<union> {lvs. \<exists>j x. i \<le> j \<and> j < n \<and> reading float64 lib j k = Some (lvs, x)}"
proof (induction float64 lib i n e rule: Collect_loop.induct)
  case (1 float64 lib i n e)
  show ?case
  proof (cases "i < n")
    case True
    have "fst ` set (vec k (Collect_loop float64 lib i n e)) =
          fst ` set (vec k (Collect_loop float64 lib (i + 1) n (Collect_body float64 lib i e)))"
      using True by (subst Collect_loop.simps) simp
    also have "\<dots> = fst ` set (vec k (Collect_body float64 lib i e)) \<union>
        {lvs. \<exists>j x. i + 1 \<le> j \<and> j < n \<and> reading float64 lib j k = Some (lvs, x)}"
      using 1 True by simp
    also have "\<dots> = fst ` set (vec k e) \<union>
        {lvs. \<exists>j x. i \<le> j \<and> j < n \<and> reading float64 lib j k = Some (lvs, x)}"
      unfolding keys_Collect_body range_split [OF True, of "\<lambda>j. reading float64 lib j k"]
      by (simp add: Un_assoc)
    finally show ?thesis .
  next
    case False
    then show ?thesis
      by (subst Collect_loop.simps) auto
  qed
qed

lemma entries_Collect_loop:
  "set (vec k (Collect_loop float64 lib i n e)) \<subseteq>
     set (vec k e) \<union> {a. \<exists>j. i \<le> j \<and> j < n \<and> reading float64 lib j k = Some a}"
proof (induction float64 lib i n e rule: Collect_loop.induct)
  case (1 float64 lib i n e)
  show ?case
  proof (cases "i < n")
    case True
    have "set (vec k (Collect_loop float64 lib i n e)) =
          set (vec k (Collect_loop float64 lib (i + 1) n (Collect_body float64 lib i e)))"
      using True by (subst Collect_loop.simps) simp
    also have "\<dots> \<subseteq> set (vec k (Collect_body float64 lib i e)) \<union>
        {a. \<exists>j. i + 1 \<le> j \<and> j < n \<and> reading float64 lib j k = Some a}"
      using 1 True by simp
    also have "\<dots> \<subseteq> set (vec k e) \<union>
        {a. \<exists>j. i \<le> j \<and> j < n \<and> reading float64 lib j k = Some a}"
      unfolding range_split' [OF True, of "\<lambda>j. reading float64 lib j k"]
      using entries_Collect_body [of k float64 lib i e] by blast
    finally show ?thesis .
  next
    case False
    then show ?thesis
      by (subst Collect_loop.simps) auto
  qed
qed

lemma distinct_Collect_loop:
  "distinct (map fst (vec k e)) \<Longrightarrow> distinct (map fst (vec k (Collect_loop float64 lib i n e)))"
proof (induction float64 lib i n e rule: Collect_loop.induct)
  case (1 float64 lib i n e)
  then show ?case
    by (subst Collect_loop.simps) (simp add: distinct_Collect_body)
qed

lemma map_of_Collect_loop_cong:
  assumes "\<And>j. i \<le> j \<Longrightarrow> j < n \<Longrightarrow>
             writes lvs (reading float64 lib j k) = writes lvs (reading float64 lib' j k)"
    and "map_of (vec k e) lvs = map_of (vec k e') lvs"
  shows "map_of (vec k (Collect_loop float64 lib i n e)) lvs =
         map_of (vec k (Collect_loop float64 lib' i n e')) lvs"
  using assms
proof (induction float64 lib i n e arbitrary: e' rule: Collect_loop.induct)
  case (1 float64 lib i n e)
  show ?case
  proof (cases "i < n")
    case True
    have step: "map_of (vec k (Collect_body float64 lib i e)) lvs =
                map_of (vec k (Collect_body float64 lib' i e')) lvs"
      using 1(2) [of i] 1(3) True by (simp add: map_of_Collect_body split: option.splits)
    have "map_of (vec k (Collect_loop float64 lib (i + 1) n (Collect_body float64 lib i e))) lvs =
          map_of (vec k (Collect_loop float64 lib' (i + 1) n (Collect_body float64 lib' i e'))) lvs"
      using True 1(2) by (intro 1(1) step) auto
    then show ?thesis
      using True
      by (subst Collect_loop.simps, subst (2) Collect_loop.simps) simp
  next
    case False
    then show ?thesis
      using 1(3)
      by (subst Collect_loop.simps, subst (2) Collect_loop.simps) simp
  qed
qed

subsection \<open>The whole cycle\<close>

lemma names_eval:
  "gpuInfo = ''nvidia_gpu_gpu_info''"
  "numDevices_name = ''nvidia_gpu_num_devices''"
  "vec_name UsedMemory = ''nvidia_gpu_memory_used_bytes''"
  "vec_name TotalMemory = ''nvidia_gpu_memory_total_bytes''"
  "vec_name DutyCycle = ''nvidia_gpu_duty_cycle''"
  "vec_name PowerUsage = ''nvidia_gpu_power_usage_milliwatts''"
  "vec_name Temperature = ''nvidia_gpu_temperature_celsius''"
  "vec_name FanSpeed = ''nvidia_gpu_fanspeed_percent''"
  by (simp_all add: gpuInfo_def numDevices_name_def vec_name.simps BuildFQName_def namespace_def)

lemma vec_name_inject: "vec_name k = vec_name k' \<longleftrightarrow> k = k'"
  by (cases k; cases k') (simp_all add: names_eval)

lemma vec_name_not_gpuInfo: "vec_name k \<noteq> gpuInfo"
  by (cases k) (simp_all add: names_eval)

lemma vec_name_not_numDevices: "vec_name k \<noteq> numDevices_name"
  by (cases k) (simp_all add: names_eval)

lemma gpuInfo_not_numDevices: "gpuInfo \<noteq> numDevices_name"
  by (simp add: names_eval)

lemma Exporter_Collect_fail:
  "snd (DeviceGetCount lib) \<noteq> SUCCESS \<Longrightarrow>
     Exporter_Collect float64 lib e = (reset_all e, info_part float64 lib)"
  by (simp add: Exporter_Collect_def reset_all_def info_part_def Reset_def Let_def split_beta)

lemma set_all_kinds: "set all_kinds = UNIV"
proof -
  have "k \<in> set all_kinds" for k
    by (cases k) (simp_all add: all_kinds_def)
  then show ?thesis by blast
qed

lemma Exporter_Collect_ok:
  "snd (DeviceGetCount lib) = SUCCESS \<Longrightarrow>
     Exporter_Collect float64 lib e =
       (final float64 lib e,
        info_part float64 lib @ [Metric numDevices_name [] (float64 (fst (DeviceGetCount lib)))] @
        concat (map (\<lambda>k. Collect_vec (vec_name k) (vec k (final float64 lib e))) all_kinds))"
  by (simp add: Exporter_Collect_def reset_all_def info_part_def final_def Reset_def Let_def
      split_beta all_kinds_def)

lemma in_Collect_vec:
  "Metric name lvs x \<in> set (Collect_vec name' v) \<longleftrightarrow> name = name' \<and> (lvs, x) \<in> set v"
  by (auto simp: Collect_vec_def)

lemma in_info_part:
  "m \<in> set (info_part float64 lib) \<longleftrightarrow>
     snd (SystemGetDriverVersion lib) = SUCCESS \<and>
     m = Metric gpuInfo [fst (SystemGetDriverVersion lib)] (float64 1)"
  by (auto simp: info_part_def MustNewConstMetric_def)

lemma vec_metric_in_Collect:
  "Metric (vec_name k) lvs x \<in> set (snd (Exporter_Collect float64 lib e)) \<longleftrightarrow>
     snd (DeviceGetCount lib) = SUCCESS \<and> (lvs, x) \<in> set (vec k (final float64 lib e))"
proof (cases "snd (DeviceGetCount lib) = SUCCESS")
  case True
  then show ?thesis
    by (simp add: Exporter_Collect_ok in_Collect_vec in_info_part vec_name_inject
        vec_name_not_gpuInfo vec_name_not_numDevices set_all_kinds)
next
  case False
  then show ?thesis
    by (simp add: Exporter_Collect_fail in_info_part vec_name_not_gpuInfo)
qed

lemma final_reset_keys: "vec k ((reset_all e)\<lparr>numDevices := c\<rparr>) = []"
  by (cases k) (simp_all add: reset_all_def)

lemma keys_final:
  "fst ` set (vec k (final float64 lib e)) =
     {lvs. \<exists>j x. 0 \<le> j \<and> j < fst (DeviceGetCount lib) \<and> reading float64 lib j k = Some (lvs, x)}"
  by (simp add: final_def keys_Collect_loop final_reset_keys)

lemma entries_final:
  "set (vec k (final float64 lib e)) \<subseteq>
     {a. \<exists>j. 0 \<le> j \<and> j < fst (DeviceGetCount lib) \<and> reading float64 lib j k = Some a}"
  using entries_Collect_loop [of k float64 lib 0 "fst (DeviceGetCount lib)"
      "(reset_all e)\<lparr>numDevices := float64 (fst (DeviceGetCount lib))\<rparr>"]
  by (simp add: final_def final_reset_keys)

lemma distinct_final: "distinct (map fst (vec k (final float64 lib e)))"
  by (simp add: final_def distinct_Collect_loop final_reset_keys)

lemma numDevices_final: "numDevices (final float64 lib e) = float64 (fst (DeviceGetCount lib))"
  by (simp add: final_def numDevices_Collect_loop)

lemma series_Collect:
  "series (snd (Exporter_Collect float64 lib e)) k lvs =
     (if snd (DeviceGetCount lib) = SUCCESS
      then {x. (lvs, x) \<in> set (vec k (final float64 lib e))} else {})"
  by (simp add: series_def vec_metric_in_Collect)

subsection \<open>Evaluating the examples\<close>

lemma Itoa_0: "Itoa 0 = ''0''" by (simp add: Itoa_def digit_def)
lemma Itoa_1: "Itoa 1 = ''1''" by (simp add: Itoa_def digit_def)

lemma lib_ok_fields:
  "SystemGetDriverVersion lib_ok = (''535.104.05'', SUCCESS)"
  "DeviceGetCount lib_ok = (2, SUCCESS)"
  "DeviceGetHandleByIndex lib_ok 0 = (10, SUCCESS)"
  "DeviceGetHandleByIndex lib_ok 1 = (11, SUCCESS)"
  "GetMinorNumber lib_ok 10 = (0, SUCCESS)"
  "GetMinorNumber lib_ok 11 = (1, SUCCESS)"
  "GetUUID lib_ok 10 = (''GPU-A'', SUCCESS)"
  "GetUUID lib_ok 11 = (''GPU-B'', SUCCESS)"
  "GetName lib_ok 10 = (''X'', SUCCESS)"
  "GetName lib_ok 11 = (''X'', SUCCESS)"
  "GetMemoryInfo lib_ok 10 = (\<lparr>Total = 1000, Free = 900, Used = 100\<rparr>, SUCCESS)"
  "GetMemoryInfo lib_ok 11 = (\<lparr>Total = 2000, Free = 1800, Used = 200\<rparr>, SUCCESS)"
  "GetUtilizationRates lib_ok 10 = (\<lparr>Gpu = 50, Memory = 10\<rparr>, SUCCESS)"
  "GetUtilizationRates lib_ok 11 = (\<lparr>Gpu = 75, Memory = 20\<rparr>, SUCCESS)"
  "GetPowerUsage lib_ok 10 = (5000, SUCCESS)"
  "GetPowerUsage lib_ok 11 = (6000, SUCCESS)"
  "GetTemperature lib_ok 10 s = (60, SUCCESS)"
  "GetTemperature lib_ok 11 s = (65, SUCCESS)"
  "GetFanSpeed lib_ok 10 = (30, SUCCESS)"
  "GetFanSpeed lib_ok 11 = (40, SUCCESS)"
  by (simp_all add: lib_ok_def)

lemma Collect_loop_0_1: "Collect_loop float64 lib 0 1 e = Collect_body float64 lib 0 e"
  by (simp add: Collect_loop.simps)

lemma Collect_loop_0_2:
  "Collect_loop float64 lib 0 2 e = Collect_body float64 lib 1 (Collect_body float64 lib 0 e)"
  by (simp add: Collect_loop.simps)

lemmas eval_simps = final_def Collect_loop_0_1 Collect_loop_0_2 Collect_body_identity
  identity_def Itoa_0 Itoa_1
  set_fields_def set_memory_def set_dutyCycle_def set_powerUsage_def set_temperature_def
  set_fanSpeed_def WithLabelValues_Set_def reset_all_def lib_ok_fields

lemma final_lib_ok:
  "final id lib_ok e =
     \<lparr>numDevices = 2,
      usedMemory = [([''0'', ''GPU-A'', ''X''], 100), ([''1'', ''GPU-B'', ''X''], 200)],
      totalMemory = [([''0'', ''GPU-A'', ''X''], 1000), ([''1'', ''GPU-B'', ''X''], 2000)],
      dutyCycle = [([''0'', ''GPU-A'', ''X''], 50), ([''1'', ''GPU-B'', ''X''], 75)],
      powerUsage = [([''0'', ''GPU-A'', ''X''], 5000), ([''1'', ''GPU-B'', ''X''], 6000)],
      temperature = [([''0'', ''GPU-A'', ''X''], 60), ([''1'', ''GPU-B'', ''X''], 65)],
      fanSpeed = [([''0'', ''GPU-A'', ''X''], 30), ([''1'', ''GPU-B'', ''X''], 40)]\<rparr>"
  by (simp add: eval_simps)

lemma e_prev_eval:
  "e_prev =
     \<lparr>numDevices = 2,
      usedMemory = [([''0'', ''GPU-A'', ''X''], 100), ([''1'', ''GPU-B'', ''X''], 200)],
      totalMemory = [([''0'', ''GPU-A'', ''X''], 1000), ([''1'', ''GPU-B'', ''X''], 2000)],
      dutyCycle = [([''0'', ''GPU-A'', ''X''], 50), ([''1'', ''GPU-B'', ''X''], 75)],
      powerUsage = [([''0'', ''GPU-A'', ''X''], 5000), ([''1'', ''GPU-B'', ''X''], 6000)],
      temperature = [([''0'', ''GPU-A'', ''X''], 60), ([''1'', ''GPU-B'', ''X''], 65)],
      fanSpeed = [([''0'', ''GPU-A'', ''X''], 30), ([''1'', ''GPU-B'', ''X''], 40)]\<rparr>"
  by (simp add: e_prev_def Exporter_Collect_ok lib_ok_fields final_lib_ok)

lemma final_lib_fan:
  "final id lib_fan e =
     \<lparr>numDevices = 2,
      usedMemory = [([''0'', ''GPU-A'', ''X''], 100), ([''1'', ''GPU-B'', ''X''], 200)],
      totalMemory = [([''0'', ''GPU-A'', ''X''], 1000), ([''1'', ''GPU-B'', ''X''], 2000)],
      dutyCycle = [([''0'', ''GPU-A'', ''X''], 50), ([''1'', ''GPU-B'', ''X''], 75)],
      powerUsage = [([''0'', ''GPU-A'', ''X''], 5000), ([''1'', ''GPU-B'', ''X''], 6000)],
      temperature = [([''0'', ''GPU-A'', ''X''], 60), ([''1'', ''GPU-B'', ''X''], 65)],
      fanSpeed = [([''0'', ''GPU-A'', ''X''], 30)]\<rparr>"
  by (simp add: lib_fan_def eval_simps)

lemma final_lib_one:
  "final id lib_one e =
     \<lparr>numDevices = 1,
      usedMemory = [([''0'', ''GPU-A'', ''X''], 100)],
      totalMemory = [([''0'', ''GPU-A'', ''X''], 1000)],
      dutyCycle = [([''0'', ''GPU-A'', ''X''], 50)],
      powerUsage = [([''0'', ''GPU-A'', ''X''], 5000)],
      temperature = [([''0'', ''GPU-A'', ''X''], 60)],
      fanSpeed = [([''0'', ''GPU-A'', ''X''], 30)]\<rparr>"
  by (simp add: lib_one_def eval_simps)

lemma final_lib_mem:
  "final id lib_mem e =
     \<lparr>numDevices = 1,
      usedMemory = [],
      totalMemory = [],
      dutyCycle = [([''0'', ''GPU-A'', ''X''], 50)],
      powerUsage = [([''0'', ''GPU-A'', ''X''], 5000)],
      temperature = [([''0'', ''GPU-A'', ''X''], 60)],
      fanSpeed = [([''0'', ''GPU-A'', ''X''], 30)]\<rparr>"
  by (simp add: lib_mem_def eval_simps)

lemma final_lib_skip:
  "final id lib_skip e =
     \<lparr>numDevices = 2, usedMemory = [], totalMemory = [], dutyCycle = [],
      powerUsage = [], temperature = [], fanSpeed = []\<rparr>"
  by (simp add: lib_skip_def eval_simps)

lemma final_lib_name:
  "final id lib_name e =
     \<lparr>numDevices = 2,
      usedMemory = [([''1'', ''GPU-B'', ''X''], 200)],
      totalMemory = [([''1'', ''GPU-B'', ''X''], 2000)],
      dutyCycle = [([''1'', ''GPU-B'', ''X''], 75)],
      powerUsage = [([''1'', ''GPU-B'', ''X''], 6000)],
      temperature = [([''1'', ''GPU-B'', ''X''], 65)],
      fanSpeed = [([''1'', ''GPU-B'', ''X''], 40)]\<rparr>"
  by (simp add: lib_name_def eval_simps)

lemmas stream_simps = info_part_def MustNewConstMetric_def Collect_vec_def all_kinds_def
  lib_ok_fields names_eval

lemma Collect_lib_fan:
  "Exporter_Collect id lib_fan e =
    (final id lib_fan e, 
     [Metric ''nvidia_gpu_gpu_info'' [''535.104.05''] 1,
      Metric ''nvidia_gpu_num_devices'' [] 2,
      Metric ''nvidia_gpu_memory_used_bytes'' [''0'', ''GPU-A'', ''X''] 100,
      Metric ''nvidia_gpu_memory_used_bytes'' [''1'', ''GPU-B'', ''X''] 200,
      Metric ''nvidia_gpu_memory_total_bytes'' [''0'', ''GPU-A'', ''X''] 1000,
      Metric ''nvidia_gpu_memory_total_bytes'' [''1'', ''GPU-B'', ''X''] 2000,
      Metric ''nvidia_gpu_duty_cycle'' [''0'', ''GPU-A'', ''X''] 50,
      Metric ''nvidia_gpu_duty_cycle'' [''1'', ''GPU-B'', ''X''] 75,
      Metric ''nvidia_gpu_power_usage_milliwatts'' [''0'', ''GPU-A'', ''X''] 5000,
      Metric ''nvidia_gpu_power_usage_milliwatts'' [''1'', ''GPU-B'', ''X''] 6000,
      Metric ''nvidia_gpu_temperature_celsius'' [''0'', ''GPU-A'', ''X''] 60,
      Metric ''nvidia_gpu_temperature_celsius'' [''1'', ''GPU-B'', ''X''] 65,
      Metric ''nvidia_gpu_fanspeed_percent'' [''0'', ''GPU-A'', ''X''] 30])"
proof -
  have ok: "snd (DeviceGetCount lib_fan) = SUCCESS"
    by (simp add: lib_fan_def lib_ok_fields)
  show ?thesis
    unfolding Exporter_Collect_ok [OF ok]
    by (simp add: final_lib_fan) (simp add: lib_fan_def stream_simps)
qed

lemma Collect_lib_mem:
  "Exporter_Collect id lib_mem e =
    (final id lib_mem e, 
     [Metric ''nvidia_gpu_gpu_info'' [''535.104.05''] 1,
      Metric ''nvidia_gpu_num_devices'' [] 1,
      Metric ''nvidia_gpu_duty_cycle'' [''0'', ''GPU-A'', ''X''] 50,
      Metric ''nvidia_gpu_power_usage_milliwatts'' [''0'', ''GPU-A'', ''X''] 5000,
      Metric ''nvidia_gpu_temperature_celsius'' [''0'', ''GPU-A'', ''X''] 60,
      Metric ''nvidia_gpu_fanspeed_percent'' [''0'', ''GPU-A'', ''X''] 30])"
proof -
  have ok: "snd (DeviceGetCount lib_mem) = SUCCESS"
    by (simp add: lib_mem_def lib_ok_fields)
  show ?thesis
    unfolding Exporter_Collect_ok [OF ok]
    by (simp add: final_lib_mem) (simp add: lib_mem_def stream_simps)
qed

lemma Collect_lib_one:
  "Exporter_Collect id lib_one e =
    (final id lib_one e, 
     [Metric ''nvidia_gpu_gpu_info'' [''535.104.05''] 1,
      Metric ''nvidia_gpu_num_devices'' [] 1,
      Metric ''nvidia_gpu_memory_used_bytes'' [''0'', ''GPU-A'', ''X''] 100,
      Metric ''nvidia_gpu_memory_total_bytes'' [''0'', ''GPU-A'', ''X''] 1000,
      Metric ''nvidia_gpu_duty_cycle'' [''0'', ''GPU-A'', ''X''] 50,
      Metric ''nvidia_gpu_power_usage_milliwatts'' [''0'', ''GPU-A'', ''X''] 5000,
      Metric ''nvidia_gpu_temperature_celsius'' [''0'', ''GPU-A'', ''X''] 60,
      Metric ''nvidia_gpu_fanspeed_percent'' [''0'', ''GPU-A'', ''X''] 30])"
proof -
  have ok: "snd (DeviceGetCount lib_one) = SUCCESS"
    by (simp add: lib_one_def lib_ok_fields)
  show ?thesis
    unfolding Exporter_Collect_ok [OF ok]
    by (simp add: final_lib_one) (simp add: lib_one_def stream_simps)
qed

lemma Collect_lib_skip:
  "Exporter_Collect id lib_skip e =
    (final id lib_skip e, 
     [Metric ''nvidia_gpu_gpu_info'' [''535.104.05''] 1,
      Metric ''nvidia_gpu_num_devices'' [] 2])"
proof -
  have ok: "snd (DeviceGetCount lib_skip) = SUCCESS"
    by (simp add: lib_skip_def lib_ok_fields)
  show ?thesis
    unfolding Exporter_Collect_ok [OF ok]
    by (simp add: final_lib_skip) (simp add: lib_skip_def stream_simps)
qed

lemma Collect_lib_name:
  "Exporter_Collect id lib_name e =
    (final id lib_name e, 
     [Metric ''nvidia_gpu_gpu_info'' [''535.104.05''] 1,
      Metric ''nvidia_gpu_num_devices'' [] 2,
      Metric ''nvidia_gpu_memory_used_bytes'' [''1'', ''GPU-B'', ''X''] 200,
      Metric ''nvidia_gpu_memory_total_bytes'' [''1'', ''GPU-B'', ''X''] 2000,
      Metric ''nvidia_gpu_duty_cycle'' [''1'', ''GPU-B'', ''X''] 75,
      Metric ''nvidia_gpu_power_usage_milliwatts'' [''1'', ''GPU-B'', ''X''] 6000,
      Metric ''nvidia_gpu_temperature_celsius'' [''1'', ''GPU-B'', ''X''] 65,
      Metric ''nvidia_gpu_fanspeed_percent'' [''1'', ''GPU-B'', ''X''] 40])"
proof -
  have ok: "snd (DeviceGetCount lib_name) = SUCCESS"
    by (simp add: lib_name_def lib_ok_fields)
  show ?thesis
    unfolding Exporter_Collect_ok [OF ok]
    by (simp add: final_lib_name) (simp add: lib_name_def stream_simps)
qed

lemma Collect_lib_count:
  "Exporter_Collect id lib_count e =
     (reset_all e, [Metric ''nvidia_gpu_gpu_info'' [''535.104.05''] 1])"
  by (simp add: Exporter_Collect_fail lib_count_def stream_simps)

lemma Collect_lib_down:
  "Exporter_Collect id lib_down e = (reset_all e, [])"
  by (simp add: Exporter_Collect_fail lib_down_def lib_count_def stream_simps)

subsection \<open>Readings, streams and parts of the loop\<close>

lemma reading_SomeD:
  "reading float64 lib i k = Some (lvs, x) \<Longrightarrow>
     \<exists>device. identity lib i = Some (device, lvs) \<and> field_value float64 lib device k = Some x"
  by (auto simp: reading_def split: option.splits)

lemma reading_SomeI:
  "identity lib i = Some (device, lvs) \<Longrightarrow> field_value float64 lib device k = Some x \<Longrightarrow>
     reading float64 lib i k = Some (lvs, x)"
  by (simp add: reading_def)

lemma field_value_query_ok:
  "field_value float64 lib device k \<noteq> None \<longleftrightarrow> query_ok lib device (query_of k)"
  by (cases k) simp_all

lemma series_ne_iff:
  "series (snd (Exporter_Collect float64 lib e)) k lvs \<noteq> {} \<longleftrightarrow>
     snd (DeviceGetCount lib) = SUCCESS \<and>
     (\<exists>i x. 0 \<le> i \<and> i < fst (DeviceGetCount lib) \<and> reading float64 lib i k = Some (lvs, x))"
proof -
  have "(\<exists>x. (lvs, x) \<in> set (vec k (final float64 lib e))) \<longleftrightarrow>
        lvs \<in> fst ` set (vec k (final float64 lib e))"
    by force
  then show ?thesis
    by (auto simp: series_Collect keys_final)
qed

lemma series_sound:
  assumes "x \<in> series (snd (Exporter_Collect float64 lib e)) k lvs"
  shows "snd (DeviceGetCount lib) = SUCCESS \<and>
         (\<exists>i. 0 \<le> i \<and> i < fst (DeviceGetCount lib) \<and> reading float64 lib i k = Some (lvs, x))"
  using assms entries_final [of k float64 lib e]
  by (auto simp: series_Collect split: if_splits)

lemma identity_labels:
  "identity lib i = Some (device, lvs) \<Longrightarrow> identity lib j = Some (device, lvs') \<Longrightarrow> lvs' = lvs"
  by (auto simp: identity_def Let_def split_beta split: if_splits)

lemma reset_all_const:
  "(reset_all e)\<lparr>numDevices := c\<rparr> =
     \<lparr>numDevices = c, usedMemory = [], totalMemory = [], dutyCycle = [],
      powerUsage = [], temperature = [], fanSpeed = []\<rparr>"
  by (simp add: reset_all_def)

lemma final_independent: "final float64 lib e = final float64 lib e'"
  by (simp add: final_def reset_all_const)

lemma filter_Collect_vec:
  "filter (\<lambda>m. desc_name m = name) (Collect_vec name' v) =
     (if name = name' then Collect_vec name' v else [])"
  by (induction v) (auto simp: Collect_vec_def)

lemma filter_not_Collect_vec:
  "filter (\<lambda>m. desc_name m \<noteq> name) (Collect_vec name' v) =
     (if name = name' then [] else Collect_vec name' v)"
  by (induction v) (auto simp: Collect_vec_def)

lemma filter_device_part:
  "(\<And>k. name \<noteq> vec_name k) \<Longrightarrow>
     filter (\<lambda>m. desc_name m = name)
       (concat (map (\<lambda>k. Collect_vec (vec_name k) (vec k e)) ks)) = []"
  by (induction ks) (simp_all add: filter_Collect_vec)

lemma filter_not_device_part:
  "(\<And>k. name \<noteq> vec_name k) \<Longrightarrow>
     filter (\<lambda>m. desc_name m \<noteq> name)
       (concat (map (\<lambda>k. Collect_vec (vec_name k) (vec k e)) ks)) =
     concat (map (\<lambda>k. Collect_vec (vec_name k) (vec k e)) ks)"
  by (induction ks) (simp_all add: filter_not_Collect_vec)

lemma filter_info_part:
  "filter (\<lambda>m. desc_name m = name) (info_part float64 lib) =
     (if name = gpuInfo then info_part float64 lib else [])"
  by (simp add: info_part_def MustNewConstMetric_def)

lemma filter_not_info_part:
  "filter (\<lambda>m. desc_name m \<noteq> name) (info_part float64 lib) =
     (if name = gpuInfo then [] else info_part float64 lib)"
  by (simp add: info_part_def MustNewConstMetric_def)

lemma gpuInfo_not_vec_name: "gpuInfo \<noteq> vec_name k"
  using vec_name_not_gpuInfo [of k] by simp

lemma numDevices_not_vec_name: "numDevices_name \<noteq> vec_name k"
  using vec_name_not_numDevices [of k] by simp

lemma device_scoped_info_part: "device_scoped (info_part float64 lib) = []"
  by (auto simp: device_scoped_def info_part_def MustNewConstMetric_def gpuInfo_not_vec_name)

lemma well_formed_info_part: "well_formed (info_part float64 lib)"
  by (simp add: well_formed_def info_part_def)

lemma Collect_loop_split:
  "i \<le> m \<Longrightarrow> m \<le> n \<Longrightarrow>
     Collect_loop float64 lib i n e = Collect_loop float64 lib m n (Collect_loop float64 lib i m e)"
proof (induction float64 lib i n e rule: Collect_loop.induct)
  case (1 float64 lib i n e)
  show ?case
  proof (cases "i < m")
    case True
    then have "i < n" using 1(3) by simp
    have "Collect_loop float64 lib i n e =
          Collect_loop float64 lib (i + 1) n (Collect_body float64 lib i e)"
      using \<open>i < n\<close> by (subst Collect_loop.simps) simp
    also have "\<dots> = Collect_loop float64 lib m n
        (Collect_loop float64 lib (i + 1) m (Collect_body float64 lib i e))"
      using 1(1) [OF \<open>i < n\<close>] True 1(3) by simp
    also have "Collect_loop float64 lib (i + 1) m (Collect_body float64 lib i e) =
        Collect_loop float64 lib i m e"
      using True by (subst (2) Collect_loop.simps) simp
    finally show ?thesis .
  next
    case False
    then have "m = i" using 1(2) by simp
    then show ?thesis
      by (subst (3) Collect_loop.simps) simp
  qed
qed

lemma Collect_loop_step:
  "Collect_loop float64 lib i (i + 1) e = Collect_body float64 lib i e"
  by (subst Collect_loop.simps, subst Collect_loop.simps) simp

subsection \<open>Well-formed streams\<close>

lemma key_Collect_vec:
  "map (\<lambda>m. (desc_name m, labelValues m)) (Collect_vec name v) = map (\<lambda>l. (name, l)) (map fst v)"
  by (induction v) (auto simp: Collect_vec_def)

lemma well_formed_device_part:
  assumes "\<And>k. distinct (map fst (vec k e))" "distinct ks"
  shows "distinct (map (\<lambda>m. (desc_name m, labelValues m))
           (concat (map (\<lambda>k. Collect_vec (vec_name k) (vec k e)) ks)))"
  using assms(2)
proof (induction ks)
  case Nil
  then show ?case by simp
next
  case (Cons k ks)
  have "distinct (map (\<lambda>l. (vec_name k, l)) (map fst (vec k e)))"
    using assms(1) [of k] by (simp add: distinct_map inj_on_def)
  moreover have "(vec_name k, l) \<notin> (\<lambda>m. (desc_name m, labelValues m)) `
      set (concat (map (\<lambda>k. Collect_vec (vec_name k) (vec k e)) ks))" for l
    using Cons.prems by (auto simp: Collect_vec_def vec_name_inject)
  ultimately show ?case
    using Cons by (auto simp: key_Collect_vec)
qed

lemma desc_name_Collect_vec: "m \<in> set (Collect_vec name v) \<Longrightarrow> desc_name m = name"
  by (auto simp: Collect_vec_def)

lemma well_formed_Collect: "well_formed (snd (Exporter_Collect float64 lib e))"
proof (cases "snd (DeviceGetCount lib) = SUCCESS")
  case True
  have d: "distinct (map (\<lambda>m. (desc_name m, labelValues m))
           (concat (map (\<lambda>k. Collect_vec (vec_name k) (vec k (final float64 lib e))) all_kinds)))"
    by (rule well_formed_device_part) (simp_all add: distinct_final all_kinds_def)
  show ?thesis
    unfolding well_formed_def Exporter_Collect_ok [OF True]
    using d
    by (auto simp: info_part_def MustNewConstMetric_def gpuInfo_not_numDevices
        gpuInfo_not_vec_name numDevices_not_vec_name dest!: desc_name_Collect_vec)
next
  case False
  then show ?thesis
    by (simp add: Exporter_Collect_fail well_formed_info_part)
qed

subsection \<open>More about the examples\<close>

lemma vec_reset_all: "vec k (reset_all e) = []"
  by (cases k) (simp_all add: reset_all_def)

lemma fst_Exporter_Collect:
  "fst (Exporter_Collect float64 lib e) =
     (if snd (DeviceGetCount lib) = SUCCESS then final float64 lib e else reset_all e)"
  by (simp add: Exporter_Collect_ok Exporter_Collect_fail)

lemma identity_examples:
  "identity lib_ok 0 = Some (10, [''0'', ''GPU-A'', ''X''])"
  "identity lib_ok 1 = Some (11, [''1'', ''GPU-B'', ''X''])"
  "identity lib_fan 0 = Some (10, [''0'', ''GPU-A'', ''X''])"
  "identity lib_fan 1 = Some (11, [''1'', ''GPU-B'', ''X''])"
  "identity lib_one 0 = Some (10, [''0'', ''GPU-A'', ''X''])"
  "identity lib_mem 0 = Some (10, [''0'', ''GPU-A'', ''X''])"
  "identity lib_skip 0 = None"
  "identity lib_skip 1 = None"
  "identity lib_name 0 = None"
  "identity lib_name 1 = Some (11, [''1'', ''GPU-B'', ''X''])"
  by (simp_all add: identity_def lib_fan_def lib_one_def lib_mem_def lib_skip_def lib_name_def
      lib_ok_fields Itoa_0 Itoa_1)

lemma count_examples:
  "DeviceGetCount lib_fan = (2, SUCCESS)"
  "DeviceGetCount lib_one = (1, SUCCESS)"
  "DeviceGetCount lib_mem = (1, SUCCESS)"
  "DeviceGetCount lib_skip = (2, SUCCESS)"
  "DeviceGetCount lib_name = (2, SUCCESS)"
  "DeviceGetCount lib_count = (0, 999)"
  "DeviceGetCount lib_down = (0, 999)"
  by (simp_all add: lib_fan_def lib_one_def lib_mem_def lib_skip_def lib_name_def lib_count_def
      lib_down_def lib_ok_fields)

subsection \<open>Identity, telemetry and the driver version\<close>

lemma reading_memory:
  "(\<exists>x. reading float64 lib i UsedMemory = Some (lvs, x)) \<longleftrightarrow>
     (\<exists>device. identity lib i = Some (device, lvs) \<and> snd (GetMemoryInfo lib device) = SUCCESS)"
  "(\<exists>x. reading float64 lib i TotalMemory = Some (lvs, x)) \<longleftrightarrow>
     (\<exists>device. identity lib i = Some (device, lvs) \<and> snd (GetMemoryInfo lib device) = SUCCESS)"
  by (auto simp: reading_def split: option.splits if_splits)

lemma Collect_body_driver:
  "Collect_body float64 (lib\<lparr>SystemGetDriverVersion := v\<rparr>) i e = Collect_body float64 lib i e"
proof -
  have "identity (lib\<lparr>SystemGetDriverVersion := v\<rparr>) i = identity lib i"
    by (simp add: identity_def)
  moreover have "set_fields float64 (lib\<lparr>SystemGetDriverVersion := v\<rparr>) device lvs e =
      set_fields float64 lib device lvs e" for device lvs
    by (simp add: set_fields_def set_memory_def set_dutyCycle_def set_powerUsage_def
        set_temperature_def set_fanSpeed_def)
  ultimately show ?thesis
    by (simp add: Collect_body_identity split: option.splits)
qed

lemma Collect_loop_driver:
  "Collect_loop float64 (lib\<lparr>SystemGetDriverVersion := v\<rparr>) i n e = Collect_loop float64 lib i n e"
proof (induction float64 lib i n e rule: Collect_loop.induct)
  case (1 float64 lib i n e)
  then show ?case
    by (subst Collect_loop.simps, subst (2) Collect_loop.simps) (simp add: Collect_body_driver)
qed

lemma final_driver: "final float64 (lib\<lparr>SystemGetDriverVersion := v\<rparr>) e = final float64 lib e"
  by (simp add: final_def Collect_loop_driver)

lemma device_scoped_fail:
  "snd (DeviceGetCount lib) \<noteq> SUCCESS \<Longrightarrow>
     device_scoped (snd (Exporter_Collect float64 lib e)) = []"
  by (simp add: Exporter_Collect_fail device_scoped_info_part)

lemma gpuInfo_present_iff:
  "(\<exists>m. m \<in> set (snd (Exporter_Collect float64 lib e)) \<and> desc_name m = gpuInfo) =
     (snd (SystemGetDriverVersion lib) = SUCCESS)"
proof -
  have "(\<exists>m. m \<in> set (snd (Exporter_Collect float64 lib e)) \<and> desc_name m = gpuInfo) =
        (filter (\<lambda>m. desc_name m = gpuInfo) (snd (Exporter_Collect float64 lib e)) \<noteq> [])"
    by (auto simp: filter_empty_conv)
  also have "\<dots> = (info_part float64 lib \<noteq> [])"
    by (cases "snd (DeviceGetCount lib) = SUCCESS")
      (simp_all add: Exporter_Collect_ok Exporter_Collect_fail filter_info_part
        filter_device_part gpuInfo_not_vec_name gpuInfo_not_numDevices [symmetric])
  finally show ?thesis
    by (simp add: info_part_def)
qed

lemma identity_None_iff:
  "identity lib i = None \<longleftrightarrow>
     snd (DeviceGetHandleByIndex lib i) \<noteq> SUCCESS \<or>
     snd (GetMinorNumber lib (fst (DeviceGetHandleByIndex lib i))) \<noteq> SUCCESS \<or>
     snd (GetUUID lib (fst (DeviceGetHandleByIndex lib i))) \<noteq> SUCCESS \<or>
     snd (GetName lib (fst (DeviceGetHandleByIndex lib i))) \<noteq> SUCCESS"
  by (auto simp: identity_def Let_def split_beta)

lemma Collect_loop_skip:
  assumes "identity lib i = None" "0 \<le> i" "i < n"
  shows "Collect_loop float64 lib 0 n e =
         Collect_loop float64 lib (i + 1) n (Collect_loop float64 lib 0 i e)"
proof -
  have "Collect_loop float64 lib 0 n e =
        Collect_loop float64 lib (i + 1) n (Collect_loop float64 lib 0 (i + 1) e)"
    using assms by (intro Collect_loop_split) auto
  also have "Collect_loop float64 lib 0 (i + 1) e =
        Collect_loop float64 lib i (i + 1) (Collect_loop float64 lib 0 i e)"
    using assms by (intro Collect_loop_split) auto
  also have "\<dots> = Collect_loop float64 lib 0 i e"
    using assms(1) by (simp add: Collect_loop_step Collect_body_identity)
  finally show ?thesis .
qed

lemma in_vec_final_iff:
  "(lvs, x) \<in> set (vec k (final float64 lib e)) \<longleftrightarrow>
     map_of (vec k (final float64 lib e)) lvs = Some x"
  using distinct_final [of k float64 lib e] by simp

lemma identity_same_but_telemetry:
  "same_but_telemetry device lib lib' \<Longrightarrow> identity lib' i = identity lib i"
  by (simp add: same_but_telemetry_def identity_def)

lemma field_value_same_but_telemetry:
  "same_but_telemetry device lib lib' \<Longrightarrow> d \<noteq> device \<Longrightarrow>
     field_value float64 lib' d k = field_value float64 lib d k"
  by (cases k) (simp_all add: same_but_telemetry_def)

lemma writes_same_but_telemetry:
  assumes same: "same_but_telemetry device lib lib'"
    and id: "identity lib i = Some (device, lvs)"
    and other: "lvs' \<noteq> lvs"
  shows "writes lvs' (reading float64 lib' j k) = writes lvs' (reading float64 lib j k)"
proof (cases "identity lib j")
  case None
  then show ?thesis
    using identity_same_but_telemetry [OF same, of j] by (simp add: reading_def)
next
  case (Some a)
  obtain d l where a: "a = (d, l)" by (cases a)
  show ?thesis
  proof (cases "d = device")
    case True
    then have "l = lvs"
      using identity_labels [OF id, of j l] Some a by simp
    then have "l \<noteq> lvs'" using other by simp
    then show ?thesis
      using identity_same_but_telemetry [OF same, of j] Some a
      by (simp add: reading_def writes_def split: option.splits)
  next
    case False
    then show ?thesis
      using identity_same_but_telemetry [OF same, of j] Some a
        field_value_same_but_telemetry [OF same False, of float64 k]
      by (simp add: reading_def)
  qed
qed

lemma series_same_but_telemetry:
  assumes same: "same_but_telemetry device lib lib'"
    and id: "identity lib i = Some (device, lvs)"
    and other: "lvs' \<noteq> lvs"
  shows "series (snd (Exporter_Collect float64 lib' e)) k lvs' =
         series (snd (Exporter_Collect float64 lib e)) k lvs'"
proof -
  have count: "DeviceGetCount lib' = DeviceGetCount lib"
    using same by (simp add: same_but_telemetry_def)
  have "map_of (vec k (final float64 lib' e)) lvs' = map_of (vec k (final float64 lib e)) lvs'"
    unfolding final_def count
    by (rule map_of_Collect_loop_cong)
      (simp_all add: writes_same_but_telemetry [OF same id other] final_reset_keys)
  then show ?thesis
    by (simp add: series_Collect in_vec_final_iff count)
qed

lemma series_unique_device:
  assumes ok: "snd (DeviceGetCount lib) = SUCCESS"
    and i: "0 \<le> i" "i < fst (DeviceGetCount lib)"
    and id: "identity lib i = Some (device, lvs)"
    and uniq: "\<forall>j d. 0 \<le> j \<and> j < fst (DeviceGetCount lib) \<and> identity lib j = Some (d, lvs) \<longrightarrow> j = i"
  shows "series (snd (Exporter_Collect float64 lib e)) k lvs =
         (case field_value float64 lib device k of None \<Rightarrow> {} | Some x \<Rightarrow> {x})"
proof -
  have sound: "field_value float64 lib device k = Some x"
    if mem: "x \<in> series (snd (Exporter_Collect float64 lib e)) k lvs" for x
  proof -
    obtain j where j: "0 \<le> j" "j < fst (DeviceGetCount lib)"
        "reading float64 lib j k = Some (lvs, x)"
      using series_sound [OF mem] by blast
    then obtain d where d: "identity lib j = Some (d, lvs)" "field_value float64 lib d k = Some x"
      using reading_SomeD [of float64 lib j k lvs x] by blast
    then have "j = i" using uniq j by blast
    then show ?thesis using d id by simp
  qed
  show ?thesis
  proof (cases "field_value float64 lib device k")
    case None
    then show ?thesis using sound by auto
  next
    case (Some x)
    have "reading float64 lib i k = Some (lvs, x)"
      using id Some by (rule reading_SomeI)
    then have "series (snd (Exporter_Collect float64 lib e)) k lvs \<noteq> {}"
      unfolding series_ne_iff using ok i by blast
    then show ?thesis using sound Some by auto
  qed
qed

text \<open>
  Series are kept by label tuple, not by index: when two indices are given the same
  label tuple, the later one writes over the earlier one, and a failed query of the
  earlier one does not show in the stream.
\<close>

lemma shared_label_tuple:
  "identity lib_twin 0 = Some (10, [''0'', ''GPU-A'', ''X'']) \<and>
   identity lib_twin 1 = Some (11, [''0'', ''GPU-A'', ''X'']) \<and>
   snd (GetFanSpeed lib_twin 10) \<noteq> SUCCESS \<and>
   series (snd (Exporter_Collect id lib_twin e)) FanSpeed [''0'', ''GPU-A'', ''X''] = {40} \<and>
   series (snd (Exporter_Collect id lib_twin e)) Temperature [''0'', ''GPU-A'', ''X''] = {65}"
proof -
  have ok: "snd (DeviceGetCount lib_twin) = SUCCESS"
    by (simp add: lib_twin_def lib_ok_fields)
  have "final id lib_twin e =
     \<lparr>numDevices = 2,
      usedMemory = [([''0'', ''GPU-A'', ''X''], 200)],
      totalMemory = [([''0'', ''GPU-A'', ''X''], 2000)],
      dutyCycle = [([''0'', ''GPU-A'', ''X''], 75)],
      powerUsage = [([''0'', ''GPU-A'', ''X''], 6000)],
      temperature = [([''0'', ''GPU-A'', ''X''], 65)],
      fanSpeed = [([''0'', ''GPU-A'', ''X''], 40)]\<rparr>"
    by (simp add: lib_twin_def eval_simps)
  then show ?thesis
    using ok
    by (simp add: series_Collect identity_def lib_twin_def lib_ok_fields Itoa_0)
qed

section \<open>The properties of the specification\<close>

text \<open>
  C1. The label tuples of the device-scoped series sent in a cycle, and those left in the
  six value mappings after it, belong to devices whose handle, minor number, UUID and name
  were all resolved in that same cycle, whatever the mappings held before the cycle: the
  mappings are cleared before the first device is looked at. The value sent is the one
  read from that device in this cycle.
\<close>

theorem no_stale_label_tuples:
  assumes "Metric (vec_name k) lvs x \<in> set (snd (Exporter_Collect float64 lib e)) \<or>
           (lvs, x) \<in> set (vec k (fst (Exporter_Collect float64 lib e)))"
  shows "snd (DeviceGetCount lib) = SUCCESS \<and>
         (\<exists>i device. 0 \<le> i \<and> i < fst (DeviceGetCount lib) \<and>
            identity lib i = Some (device, lvs) \<and>
            field_value float64 lib device k = Some x)"
proof (cases "snd (DeviceGetCount lib) = SUCCESS")
  case True
  have "(lvs, x) \<in> set (vec k (final float64 lib e))"
    using assms True by (auto simp: vec_metric_in_Collect fst_Exporter_Collect)
  then obtain i where "0 \<le> i" "i < fst (DeviceGetCount lib)"
      "reading float64 lib i k = Some (lvs, x)"
    using entries_final [of k float64 lib e] by auto
  then show ?thesis
    using True reading_SomeD [of float64 lib i k lvs x] by blast
next
  case False
  then have False
    using assms by (simp add: vec_metric_in_Collect fst_Exporter_Collect vec_reset_all)
  then show ?thesis ..
qed

theorem no_stale_label_tuples_witness:
  "([''1'', ''GPU-B'', ''X''], 200) \<in> set (vec UsedMemory e_prev) \<and>
   Metric (vec_name UsedMemory) [''0'', ''GPU-A'', ''X''] 100
     \<in> set (snd (Exporter_Collect id lib_one e_prev)) \<and>
   (\<exists>i device. 0 \<le> i \<and> i < fst (DeviceGetCount lib_one) \<and>
      identity lib_one i = Some (device, [''0'', ''GPU-A'', ''X'']) \<and>
      field_value id lib_one device UsedMemory = Some 100) \<and>
   (\<forall>k x. Metric (vec_name k) [''1'', ''GPU-B'', ''X''] x
      \<notin> set (snd (Exporter_Collect id lib_one e_prev)))"
proof -
  have stale: "([''1'', ''GPU-B'', ''X''], 200) \<in> set (vec UsedMemory e_prev)"
    by (simp add: e_prev_eval)
  have sent: "Metric (vec_name UsedMemory) [''0'', ''GPU-A'', ''X''] 100
      \<in> set (snd (Exporter_Collect id lib_one e_prev))"
    by (simp add: Collect_lib_one names_eval)
  have here: "\<exists>i device. 0 \<le> i \<and> i < fst (DeviceGetCount lib_one) \<and>
      identity lib_one i = Some (device, [''0'', ''GPU-A'', ''X'']) \<and>
      field_value id lib_one device UsedMemory = Some 100"
    using no_stale_label_tuples [of UsedMemory "[''0'', ''GPU-A'', ''X'']" 100 id lib_one e_prev]
      sent by simp
  have gone: "Metric (vec_name k) [''1'', ''GPU-B'', ''X''] x
      \<notin> set (snd (Exporter_Collect id lib_one e_prev))" for k x
  proof
    assume "Metric (vec_name k) [''1'', ''GPU-B'', ''X''] x
      \<in> set (snd (Exporter_Collect id lib_one e_prev))"
    then obtain i device where "0 \<le> i" "i < 1"
        "identity lib_one i = Some (device, [''1'', ''GPU-B'', ''X''])"
      using no_stale_label_tuples [of k "[''1'', ''GPU-B'', ''X'']" x id lib_one e_prev]
      by (auto simp: count_examples)
    then show False
      by (cases "i = 0") (simp_all add: identity_examples)
  qed
  show ?thesis
    using stale sent here gone by blast
qed

text \<open>
  C2, as amended. The six device-scoped metrics come from five queries: used and total
  memory share the memory information query. For a device identified in the cycle whose
  label tuple no other identified index of the cycle has, the series of a metric is
  missing exactly when the query behind the metric failed, and otherwise holds the one
  value read (never a zero or another stand-in); so a failure of the memory information
  query removes the two memory series and a failure of any other query removes one
  series, the series fed by the other queries being sent. The series of every other
  label tuple are the same whatever the five telemetry queries answer for this device.
\<close>

theorem telemetry_failure_isolated:
  assumes "snd (DeviceGetCount lib) = SUCCESS"
    and "0 \<le> i" and "i < fst (DeviceGetCount lib)"
    and "identity lib i = Some (device, lvs)"
    and "\<forall>j d. 0 \<le> j \<and> j < fst (DeviceGetCount lib) \<and> identity lib j = Some (d, lvs) \<longrightarrow> j = i"
  shows "(\<forall>k. series (snd (Exporter_Collect float64 lib e)) k lvs =
            (case field_value float64 lib device k of None \<Rightarrow> {} | Some x \<Rightarrow> {x})) \<and>
         (\<forall>k. (series (snd (Exporter_Collect float64 lib e)) k lvs = {}) =
            (\<not> query_ok lib device (query_of k))) \<and>
         (\<forall>lib' k lvs'. same_but_telemetry device lib lib' \<and> lvs' \<noteq> lvs \<longrightarrow>
            series (snd (Exporter_Collect float64 lib' e)) k lvs' =
            series (snd (Exporter_Collect float64 lib e)) k lvs')"
proof -
  have one: "series (snd (Exporter_Collect float64 lib e)) k lvs =
      (case field_value float64 lib device k of None \<Rightarrow> {} | Some x \<Rightarrow> {x})" for k
    using assms by (rule series_unique_device)
  have two: "(series (snd (Exporter_Collect float64 lib e)) k lvs = {}) =
      (\<not> query_ok lib device (query_of k))" for k
    unfolding one field_value_query_ok [of float64 lib device k, symmetric]
    by (simp split: option.splits)
  have three: "series (snd (Exporter_Collect float64 lib' e)) k lvs' =
      series (snd (Exporter_Collect float64 lib e)) k lvs'"
    if h: "same_but_telemetry device lib lib' \<and> lvs' \<noteq> lvs" for lib' k lvs'
  proof -
    from h have "same_but_telemetry device lib lib'" "lvs' \<noteq> lvs" by simp_all
    then show ?thesis
      by (rule series_same_but_telemetry [OF _ assms(4)])
  qed
  show ?thesis
    using one two three by blast
qed

theorem telemetry_failure_isolated_witness:
  "identity lib_fan 1 = Some (11, [''1'', ''GPU-B'', ''X'']) \<and>
   snd (GetFanSpeed lib_fan 11) \<noteq> SUCCESS \<and>
   series (snd (Exporter_Collect id lib_fan e_prev)) FanSpeed [''1'', ''GPU-B'', ''X''] = {} \<and>
   series (snd (Exporter_Collect id lib_fan e_prev)) UsedMemory [''1'', ''GPU-B'', ''X''] = {200} \<and>
   series (snd (Exporter_Collect id lib_fan e_prev)) TotalMemory [''1'', ''GPU-B'', ''X''] = {2000} \<and>
   series (snd (Exporter_Collect id lib_fan e_prev)) DutyCycle [''1'', ''GPU-B'', ''X''] = {75} \<and>
   series (snd (Exporter_Collect id lib_fan e_prev)) PowerUsage [''1'', ''GPU-B'', ''X''] = {6000} \<and>
   series (snd (Exporter_Collect id lib_fan e_prev)) Temperature [''1'', ''GPU-B'', ''X''] = {65} \<and>
   same_but_telemetry 11 lib_fan lib_ok \<and>
   (\<forall>k. series (snd (Exporter_Collect id lib_ok e_prev)) k [''0'', ''GPU-A'', ''X''] =
        series (snd (Exporter_Collect id lib_fan e_prev)) k [''0'', ''GPU-A'', ''X''])"
proof -
  have ok: "snd (DeviceGetCount lib_fan) = SUCCESS"
    and i: "(0::int) \<le> 1" "1 < fst (DeviceGetCount lib_fan)"
    and id: "identity lib_fan 1 = Some (11, [''1'', ''GPU-B'', ''X''])"
    by (simp_all add: count_examples identity_examples)
  have uniq: "\<forall>j d. 0 \<le> j \<and> j < fst (DeviceGetCount lib_fan) \<and>
      identity lib_fan j = Some (d, [''1'', ''GPU-B'', ''X'']) \<longrightarrow> j = 1"
  proof (intro allI impI)
    fix j d
    assume h: "0 \<le> j \<and> j < fst (DeviceGetCount lib_fan) \<and>
      identity lib_fan j = Some (d, [''1'', ''GPU-B'', ''X''])"
    then have "j = 0 \<or> j = 1" by (auto simp: count_examples)
    then show "j = 1" using h by (auto simp: identity_examples)
  qed
  note isolated = telemetry_failure_isolated [OF ok i id uniq, of id e_prev]
  have fan: "snd (GetFanSpeed lib_fan 11) \<noteq> SUCCESS"
    by (simp add: lib_fan_def)
  have vals: "field_value id lib_fan 11 FanSpeed = None"
    "field_value id lib_fan 11 UsedMemory = Some 200"
    "field_value id lib_fan 11 TotalMemory = Some 2000"
    "field_value id lib_fan 11 DutyCycle = Some 75"
    "field_value id lib_fan 11 PowerUsage = Some 6000"
    "field_value id lib_fan 11 Temperature = Some 65"
    by (simp_all add: lib_fan_def lib_ok_fields)
  have same: "same_but_telemetry 11 lib_fan lib_ok"
    by (simp add: same_but_telemetry_def lib_fan_def)
  have s: "series (snd (Exporter_Collect id lib_fan e_prev)) k [''1'', ''GPU-B'', ''X''] =
      (case field_value id lib_fan 11 k of None \<Rightarrow> {} | Some x \<Rightarrow> {x})" for k
    by (rule isolated [THEN conjunct1, rule_format])
  have others: "series (snd (Exporter_Collect id lib_ok e_prev)) k [''0'', ''GPU-A'', ''X''] =
      series (snd (Exporter_Collect id lib_fan e_prev)) k [''0'', ''GPU-A'', ''X'']" for k
  proof -
    have "same_but_telemetry 11 lib_fan lib_ok \<and> [''0'', ''GPU-A'', ''X''] \<noteq> [''1'', ''GPU-B'', ''X'']"
      using same by simp
    then show ?thesis
      by (rule isolated [THEN conjunct2, THEN conjunct2, rule_format])
  qed
  have s1: "series (snd (Exporter_Collect id lib_fan e_prev)) FanSpeed [''1'', ''GPU-B'', ''X''] = {}"
    "series (snd (Exporter_Collect id lib_fan e_prev)) UsedMemory [''1'', ''GPU-B'', ''X''] = {200}"
    "series (snd (Exporter_Collect id lib_fan e_prev)) TotalMemory [''1'', ''GPU-B'', ''X''] = {2000}"
    "series (snd (Exporter_Collect id lib_fan e_prev)) DutyCycle [''1'', ''GPU-B'', ''X''] = {75}"
    "series (snd (Exporter_Collect id lib_fan e_prev)) PowerUsage [''1'', ''GPU-B'', ''X''] = {6000}"
    "series (snd (Exporter_Collect id lib_fan e_prev)) Temperature [''1'', ''GPU-B'', ''X''] = {65}"
    by (simp_all only: s vals option.case)
  show ?thesis
    using id fan same others s1 by (intro conjI allI)
qed

text \<open>
  C2, as stated, fails: with one device and the memory information query as the only
  failing query, two of the six series are missing, not one.
\<close>

theorem one_failed_query_two_missing_series:
  "identity lib_mem 0 = Some (10, [''0'', ''GPU-A'', ''X'']) \<and>
   snd (GetMemoryInfo lib_mem 10) \<noteq> SUCCESS \<and>
   snd (GetUtilizationRates lib_mem 10) = SUCCESS \<and>
   snd (GetPowerUsage lib_mem 10) = SUCCESS \<and>
   snd (GetTemperature lib_mem 10 TEMPERATURE_GPU) = SUCCESS \<and>
   snd (GetFanSpeed lib_mem 10) = SUCCESS \<and>
   snd (Exporter_Collect id lib_mem (NewExporter id)) =
     [Metric ''nvidia_gpu_gpu_info'' [''535.104.05''] 1,
      Metric ''nvidia_gpu_num_devices'' [] 1,
      Metric ''nvidia_gpu_duty_cycle'' [''0'', ''GPU-A'', ''X''] 50,
      Metric ''nvidia_gpu_power_usage_milliwatts'' [''0'', ''GPU-A'', ''X''] 5000,
      Metric ''nvidia_gpu_temperature_celsius'' [''0'', ''GPU-A'', ''X''] 60,
      Metric ''nvidia_gpu_fanspeed_percent'' [''0'', ''GPU-A'', ''X''] 30] \<and>
   series (snd (Exporter_Collect id lib_mem (NewExporter id))) UsedMemory
     [''0'', ''GPU-A'', ''X''] = {} \<and>
   series (snd (Exporter_Collect id lib_mem (NewExporter id))) TotalMemory
     [''0'', ''GPU-A'', ''X''] = {}"
  by (simp add: identity_examples Collect_lib_mem series_def names_eval)
    (simp add: lib_mem_def lib_ok_fields)

text \<open>
  C3. When the device count query fails the cycle stops there: the stream holds the
  \<^verbatim>\<open>gpu_info\<close> sample if the driver version query succeeded and nothing else, so no
  device-scoped series, and it is well formed. No other failure stops a cycle: when the
  count query succeeds the \<^verbatim>\<open>num_devices\<close> sample is sent, the stream is well formed, and
  every index below the count whose identity and telemetry query succeed has its series
  in the stream, whatever else failed.
\<close>

theorem count_failure_is_fatal_to_cycle:
  "(snd (DeviceGetCount lib) \<noteq> SUCCESS \<longrightarrow>
      snd (Exporter_Collect float64 lib e) =
        (if snd (SystemGetDriverVersion lib) = SUCCESS
         then [Metric gpuInfo [fst (SystemGetDriverVersion lib)] (float64 1)] else []) \<and>
      device_scoped (snd (Exporter_Collect float64 lib e)) = [] \<and>
      well_formed (snd (Exporter_Collect float64 lib e)) \<and>
      (\<exists>m. m \<in> set (snd (Exporter_Collect float64 lib e)) \<and> desc_name m = gpuInfo) =
        (snd (SystemGetDriverVersion lib) = SUCCESS)) \<and>
   (snd (DeviceGetCount lib) = SUCCESS \<longrightarrow>
      Metric numDevices_name [] (float64 (fst (DeviceGetCount lib)))
        \<in> set (snd (Exporter_Collect float64 lib e)) \<and>
      well_formed (snd (Exporter_Collect float64 lib e)) \<and>
      (\<forall>i k device lvs x.
         0 \<le> i \<and> i < fst (DeviceGetCount lib) \<and> identity lib i = Some (device, lvs) \<and>
         field_value float64 lib device k = Some x \<longrightarrow>
         series (snd (Exporter_Collect float64 lib e)) k lvs \<noteq> {}))"
proof (intro conjI impI allI)
  assume "snd (DeviceGetCount lib) \<noteq> SUCCESS"
  then show "snd (Exporter_Collect float64 lib e) =
      (if snd (SystemGetDriverVersion lib) = SUCCESS
       then [Metric gpuInfo [fst (SystemGetDriverVersion lib)] (float64 1)] else [])"
    by (simp add: Exporter_Collect_fail info_part_def MustNewConstMetric_def)
next
  assume "snd (DeviceGetCount lib) \<noteq> SUCCESS"
  then show "device_scoped (snd (Exporter_Collect float64 lib e)) = []"
    by (rule device_scoped_fail)
next
  show "well_formed (snd (Exporter_Collect float64 lib e))"
    by (rule well_formed_Collect)
next
  show "(\<exists>m. m \<in> set (snd (Exporter_Collect float64 lib e)) \<and> desc_name m = gpuInfo) =
      (snd (SystemGetDriverVersion lib) = SUCCESS)"
    by (rule gpuInfo_present_iff)
next
  assume "snd (DeviceGetCount lib) = SUCCESS"
  then show "Metric numDevices_name [] (float64 (fst (DeviceGetCount lib)))
      \<in> set (snd (Exporter_Collect float64 lib e))"
    by (simp add: Exporter_Collect_ok)
next
  show "well_formed (snd (Exporter_Collect float64 lib e))"
    by (rule well_formed_Collect)
next
  fix i k device lvs x
  assume ok: "snd (DeviceGetCount lib) = SUCCESS"
    and "0 \<le> i \<and> i < fst (DeviceGetCount lib) \<and> identity lib i = Some (device, lvs) \<and>
         field_value float64 lib device k = Some x"
  then have "0 \<le> i" "i < fst (DeviceGetCount lib)" "reading float64 lib i k = Some (lvs, x)"
    by (simp_all add: reading_SomeI)
  then show "series (snd (Exporter_Collect float64 lib e)) k lvs \<noteq> {}"
    unfolding series_ne_iff using ok by blast
qed

theorem count_failure_is_fatal_to_cycle_witness:
  "snd (DeviceGetCount lib_count) \<noteq> SUCCESS \<and>
   snd (Exporter_Collect id lib_count e_prev) = [Metric gpuInfo [''535.104.05''] 1] \<and>
   device_scoped (snd (Exporter_Collect id lib_count e_prev)) = [] \<and>
   well_formed (snd (Exporter_Collect id lib_count e_prev)) \<and>
   snd (DeviceGetCount lib_down) \<noteq> SUCCESS \<and>
   snd (Exporter_Collect id lib_down e_prev) = [] \<and>
   snd (DeviceGetCount lib_fan) = SUCCESS \<and>
   Metric numDevices_name [] 2 \<in> set (snd (Exporter_Collect id lib_fan e_prev)) \<and>
   series (snd (Exporter_Collect id lib_fan e_prev)) Temperature [''1'', ''GPU-B'', ''X''] \<noteq> {}"
proof -
  have a: "snd (DeviceGetCount lib_count) \<noteq> SUCCESS" "snd (DeviceGetCount lib_down) \<noteq> SUCCESS"
    "snd (DeviceGetCount lib_fan) = SUCCESS"
    by (simp_all add: count_examples)
  have v: "snd (SystemGetDriverVersion lib_count) = SUCCESS"
    "fst (SystemGetDriverVersion lib_count) = ''535.104.05''"
    "snd (SystemGetDriverVersion lib_down) \<noteq> SUCCESS"
    by (simp_all add: lib_count_def lib_down_def lib_ok_fields)
  have i: "(0::int) \<le> 1 \<and> 1 < fst (DeviceGetCount lib_fan) \<and>
      identity lib_fan 1 = Some (11, [''1'', ''GPU-B'', ''X'']) \<and>
      field_value id lib_fan 11 Temperature = Some 65"
    by (simp add: count_examples identity_examples) (simp add: lib_fan_def lib_ok_fields)
  have "snd (Exporter_Collect id lib_count e_prev) =
      (if snd (SystemGetDriverVersion lib_count) = SUCCESS
       then [Metric gpuInfo [fst (SystemGetDriverVersion lib_count)] (id 1)] else [])"
    using count_failure_is_fatal_to_cycle [of lib_count id e_prev] a(1) by blast
  then have c1: "snd (Exporter_Collect id lib_count e_prev) = [Metric gpuInfo [''535.104.05''] 1]"
    by (simp add: v)
  have c2: "device_scoped (snd (Exporter_Collect id lib_count e_prev)) = []"
    using count_failure_is_fatal_to_cycle [of lib_count id e_prev] a(1) by blast
  have c3: "well_formed (snd (Exporter_Collect id lib_count e_prev))"
    using count_failure_is_fatal_to_cycle [of lib_count id e_prev] a(1) by blast
  have "snd (Exporter_Collect id lib_down e_prev) =
      (if snd (SystemGetDriverVersion lib_down) = SUCCESS
       then [Metric gpuInfo [fst (SystemGetDriverVersion lib_down)] (id 1)] else [])"
    using count_failure_is_fatal_to_cycle [of lib_down id e_prev] a(2) by blast
  then have d1: "snd (Exporter_Collect id lib_down e_prev) = []"
    by (simp add: v)
  have "Metric numDevices_name [] (id (fst (DeviceGetCount lib_fan)))
      \<in> set (snd (Exporter_Collect id lib_fan e_prev))"
    using count_failure_is_fatal_to_cycle [of lib_fan id e_prev] a(3) by blast
  then have f1: "Metric numDevices_name [] 2 \<in> set (snd (Exporter_Collect id lib_fan e_prev))"
    by (simp add: count_examples)
  have f2: "series (snd (Exporter_Collect id lib_fan e_prev)) Temperature
      [''1'', ''GPU-B'', ''X''] \<noteq> {}"
    using count_failure_is_fatal_to_cycle [of lib_fan id e_prev] a(3) i by blast
  show ?thesis
    using a c1 c2 c3 d1 f1 f2 by blast
qed

text \<open>
  C5. If the handle, the minor number, the UUID or the name of the device at an index
  cannot be resolved, the loop body leaves the exporter as it was, so the device
  contributes no series, whatever part of its identity was resolved; the loop goes on
  with the next index, so the cycle is the one the other indices alone would give: every
  series sent comes from another index, and every other index that is identified and
  whose telemetry query succeeds has its series sent.
\<close>

theorem unidentified_device_is_skipped:
  assumes "snd (DeviceGetHandleByIndex lib i) \<noteq> SUCCESS \<or>
           snd (GetMinorNumber lib (fst (DeviceGetHandleByIndex lib i))) \<noteq> SUCCESS \<or>
           snd (GetUUID lib (fst (DeviceGetHandleByIndex lib i))) \<noteq> SUCCESS \<or>
           snd (GetName lib (fst (DeviceGetHandleByIndex lib i))) \<noteq> SUCCESS"
  shows "Collect_body float64 lib i e = e \<and>
         (0 \<le> i \<and> i < n \<longrightarrow>
            Collect_loop float64 lib 0 n e =
            Collect_loop float64 lib (i + 1) n (Collect_loop float64 lib 0 i e)) \<and>
         (\<forall>k lvs x. Metric (vec_name k) lvs x \<in> set (snd (Exporter_Collect float64 lib e)) \<longrightarrow>
            (\<exists>j device. j \<noteq> i \<and> 0 \<le> j \<and> j < fst (DeviceGetCount lib) \<and>
               identity lib j = Some (device, lvs) \<and>
               field_value float64 lib device k = Some x)) \<and>
         (\<forall>j k device lvs x.
            snd (DeviceGetCount lib) = SUCCESS \<and> 0 \<le> j \<and> j < fst (DeviceGetCount lib) \<and>
            identity lib j = Some (device, lvs) \<and> field_value float64 lib device k = Some x \<longrightarrow>
            series (snd (Exporter_Collect float64 lib e)) k lvs \<noteq> {})"
proof -
  have none: "identity lib i = None"
    using assms by (simp only: identity_None_iff)
  have body: "Collect_body float64 lib i e = e"
    using none by (simp add: Collect_body_identity)
  have loop: "0 \<le> i \<and> i < n \<longrightarrow>
      Collect_loop float64 lib 0 n e =
      Collect_loop float64 lib (i + 1) n (Collect_loop float64 lib 0 i e)"
    using Collect_loop_skip [OF none] by blast
  have others: "\<exists>j device. j \<noteq> i \<and> 0 \<le> j \<and> j < fst (DeviceGetCount lib) \<and>
      identity lib j = Some (device, lvs) \<and> field_value float64 lib device k = Some x"
    if "Metric (vec_name k) lvs x \<in> set (snd (Exporter_Collect float64 lib e))" for k lvs x
  proof -
    have "(lvs, x) \<in> set (vec k (final float64 lib e))"
      using that by (simp add: vec_metric_in_Collect)
    then obtain j where j: "0 \<le> j" "j < fst (DeviceGetCount lib)"
        "reading float64 lib j k = Some (lvs, x)"
      using entries_final [of k float64 lib e] by auto
    then obtain device where "identity lib j = Some (device, lvs)"
        "field_value float64 lib device k = Some x"
      using reading_SomeD [of float64 lib j k lvs x] by blast
    moreover from this none have "j \<noteq> i" by auto
    ultimately show ?thesis using j by blast
  qed
  have kept: "series (snd (Exporter_Collect float64 lib e)) k lvs \<noteq> {}"
    if "snd (DeviceGetCount lib) = SUCCESS \<and> 0 \<le> j \<and> j < fst (DeviceGetCount lib) \<and>
        identity lib j = Some (device, lvs) \<and> field_value float64 lib device k = Some x"
    for j k device lvs x
    unfolding series_ne_iff using that reading_SomeI [of lib j device lvs float64 k x] by blast
  show ?thesis
    using body loop others kept by blast
qed

theorem unidentified_device_is_skipped_witness:
  "snd (DeviceGetHandleByIndex lib_name 0) = SUCCESS \<and>
   snd (GetUUID lib_name (fst (DeviceGetHandleByIndex lib_name 0))) = SUCCESS \<and>
   snd (GetName lib_name (fst (DeviceGetHandleByIndex lib_name 0))) \<noteq> SUCCESS \<and>
   Collect_body id lib_name 0 e_prev = e_prev \<and>
   Collect_loop id lib_name 0 2 e_prev =
     Collect_loop id lib_name (0 + 1) 2 (Collect_loop id lib_name 0 0 e_prev) \<and>
   series (snd (Exporter_Collect id lib_name e_prev)) FanSpeed [''1'', ''GPU-B'', ''X''] \<noteq> {} \<and>
   (\<forall>k x. Metric (vec_name k) [''0'', ''GPU-A'', ''X''] x
      \<notin> set (snd (Exporter_Collect id lib_name e_prev)))"
proof -
  have q: "snd (DeviceGetHandleByIndex lib_name 0) = SUCCESS"
    "snd (GetUUID lib_name (fst (DeviceGetHandleByIndex lib_name 0))) = SUCCESS"
    "snd (GetName lib_name (fst (DeviceGetHandleByIndex lib_name 0))) \<noteq> SUCCESS"
    by (simp_all add: lib_name_def lib_ok_fields)
  then have hyp: "snd (DeviceGetHandleByIndex lib_name 0) \<noteq> SUCCESS \<or>
      snd (GetMinorNumber lib_name (fst (DeviceGetHandleByIndex lib_name 0))) \<noteq> SUCCESS \<or>
      snd (GetUUID lib_name (fst (DeviceGetHandleByIndex lib_name 0))) \<noteq> SUCCESS \<or>
      snd (GetName lib_name (fst (DeviceGetHandleByIndex lib_name 0))) \<noteq> SUCCESS"
    by blast
  note skipped = unidentified_device_is_skipped [OF hyp, of id e_prev 2]
  have body: "Collect_body id lib_name 0 e_prev = e_prev"
    using skipped by blast
  have loop: "Collect_loop id lib_name 0 2 e_prev =
      Collect_loop id lib_name (0 + 1) 2 (Collect_loop id lib_name 0 0 e_prev)"
    using skipped by simp
  have j: "snd (DeviceGetCount lib_name) = SUCCESS \<and> (0::int) \<le> 1 \<and>
      1 < fst (DeviceGetCount lib_name) \<and>
      identity lib_name 1 = Some (11, [''1'', ''GPU-B'', ''X'']) \<and>
      field_value id lib_name 11 FanSpeed = Some 40"
    by (simp add: count_examples identity_examples) (simp add: lib_name_def lib_ok_fields)
  have kept: "series (snd (Exporter_Collect id lib_name e_prev)) FanSpeed
      [''1'', ''GPU-B'', ''X''] \<noteq> {}"
    using skipped j by blast
  have gone: "Metric (vec_name k) [''0'', ''GPU-A'', ''X''] x
      \<notin> set (snd (Exporter_Collect id lib_name e_prev))" for k x
  proof
    assume "Metric (vec_name k) [''0'', ''GPU-A'', ''X''] x
      \<in> set (snd (Exporter_Collect id lib_name e_prev))"
    then obtain j device where "j \<noteq> 0" "0 \<le> j" "j < fst (DeviceGetCount lib_name)"
        "identity lib_name j = Some (device, [''0'', ''GPU-A'', ''X''])"
      using skipped by blast
    then have "j = 1" "identity lib_name j = Some (device, [''0'', ''GPU-A'', ''X''])"
      by (simp_all add: count_examples)
    then show False
      by (simp add: identity_examples)
  qed
  show ?thesis
    using q body loop kept gone by blast
qed

text \<open>
  C6. The samples of \<^verbatim>\<open>gpu_info\<close> in the stream of a cycle are: one sample with value 1 and
  the returned driver version as its label value when the driver version query succeeds,
  none when it fails. Whatever that query answers, the exporter after the cycle and all
  the other metrics of the stream are the same: the failure aborts nothing.
\<close>

theorem gpu_info_iff_driver_version:
  "filter (\<lambda>m. desc_name m = gpuInfo) (snd (Exporter_Collect float64 lib e)) =
     (if snd (SystemGetDriverVersion lib) = SUCCESS
      then [Metric gpuInfo [fst (SystemGetDriverVersion lib)] (float64 1)] else []) \<and>
   fst (Exporter_Collect float64 (lib\<lparr>SystemGetDriverVersion := v\<rparr>) e) =
     fst (Exporter_Collect float64 lib e) \<and>
   filter (\<lambda>m. desc_name m \<noteq> gpuInfo)
       (snd (Exporter_Collect float64 (lib\<lparr>SystemGetDriverVersion := v\<rparr>) e)) =
     filter (\<lambda>m. desc_name m \<noteq> gpuInfo) (snd (Exporter_Collect float64 lib e))"
proof (cases "snd (DeviceGetCount lib) = SUCCESS")
  case True
  then show ?thesis
    by (simp add: Exporter_Collect_ok filter_info_part filter_not_info_part filter_device_part
        filter_not_device_part gpuInfo_not_vec_name gpuInfo_not_numDevices
        gpuInfo_not_numDevices [symmetric] final_driver)
      (simp add: info_part_def MustNewConstMetric_def)
next
  case False
  then show ?thesis
    by (simp add: Exporter_Collect_fail filter_info_part filter_not_info_part)
      (simp add: info_part_def MustNewConstMetric_def)
qed

theorem gpu_info_iff_driver_version_witness:
  "filter (\<lambda>m. desc_name m = gpuInfo) (snd (Exporter_Collect id lib_fan e_prev)) =
     [Metric gpuInfo [''535.104.05''] 1] \<and>
   filter (\<lambda>m. desc_name m = gpuInfo) (snd (Exporter_Collect id lib_down e_prev)) = [] \<and>
   filter (\<lambda>m. desc_name m \<noteq> gpuInfo)
       (snd (Exporter_Collect id (lib_fan\<lparr>SystemGetDriverVersion := ([], 999)\<rparr>) e_prev)) =
     filter (\<lambda>m. desc_name m \<noteq> gpuInfo) (snd (Exporter_Collect id lib_fan e_prev))"
  using gpu_info_iff_driver_version [of id lib_fan e_prev "([], 999)"]
    gpu_info_iff_driver_version [of id lib_down e_prev "([], 999)"]
  by (simp add: lib_fan_def lib_down_def lib_count_def lib_ok_fields)

text \<open>
  C7. Two consecutive cycles in which the library gives the same answers send the same
  set of metrics and leave the exporter in the same state; more generally the metrics of
  a cycle do not depend on the state the exporter had before it.
\<close>

theorem consecutive_cycles_agree:
  "set (snd (Exporter_Collect float64 lib (fst (Exporter_Collect float64 lib e)))) =
     set (snd (Exporter_Collect float64 lib e)) \<and>
   fst (Exporter_Collect float64 lib (fst (Exporter_Collect float64 lib e))) =
     fst (Exporter_Collect float64 lib e) \<and>
   set (snd (Exporter_Collect float64 lib e')) = set (snd (Exporter_Collect float64 lib e))"
proof (cases "snd (DeviceGetCount lib) = SUCCESS")
  case True
  then show ?thesis
    using final_independent [of float64 lib e' e]
      final_independent [of float64 lib "final float64 lib e" e]
    by (simp add: Exporter_Collect_ok)
next
  case False
  then show ?thesis
    by (simp add: Exporter_Collect_fail reset_all_def)
qed

theorem consecutive_cycles_agree_witness:
  "set (snd (Exporter_Collect id lib_fan (fst (Exporter_Collect id lib_fan (NewExporter id))))) =
     set (snd (Exporter_Collect id lib_fan (NewExporter id))) \<and>
   fst (Exporter_Collect id lib_fan (fst (Exporter_Collect id lib_fan (NewExporter id)))) =
     fst (Exporter_Collect id lib_fan (NewExporter id)) \<and>
   set (snd (Exporter_Collect id lib_fan e_prev)) =
     set (snd (Exporter_Collect id lib_fan (NewExporter id)))"
  using consecutive_cycles_agree [of id lib_fan "NewExporter id" e_prev] by simp

text \<open>
  C8. When the device count query succeeds, the one \<^verbatim>\<open>num_devices\<close> sample of the cycle is
  the count the library returned, converted to \<^verbatim>\<open>float64\<close>, whatever happens to the
  devices afterwards: it is not the number of devices that could be identified.
\<close>

theorem num_devices_is_raw_count:
  assumes "snd (DeviceGetCount lib) = SUCCESS"
  shows "filter (\<lambda>m. desc_name m = numDevices_name) (snd (Exporter_Collect float64 lib e)) =
           [Metric numDevices_name [] (float64 (fst (DeviceGetCount lib)))] \<and>
         numDevices (fst (Exporter_Collect float64 lib e)) = float64 (fst (DeviceGetCount lib))"
  using assms
  by (simp add: Exporter_Collect_ok filter_info_part gpuInfo_not_numDevices [symmetric]
      filter_device_part numDevices_not_vec_name numDevices_final)

theorem num_devices_is_raw_count_witness:
  "DeviceGetCount lib_skip = (2, SUCCESS) \<and>
   identity lib_skip 0 = None \<and> identity lib_skip 1 = None \<and>
   device_scoped (snd (Exporter_Collect id lib_skip e_prev)) = [] \<and>
   filter (\<lambda>m. desc_name m = numDevices_name) (snd (Exporter_Collect id lib_skip e_prev)) =
     [Metric numDevices_name [] 2] \<and>
   numDevices (fst (Exporter_Collect id lib_skip e_prev)) = 2"
proof -
  have ok: "snd (DeviceGetCount lib_skip) = SUCCESS"
    by (simp add: count_examples)
  have none: "device_scoped (snd (Exporter_Collect id lib_skip e_prev)) = []"
    by (simp add: Collect_lib_skip device_scoped_def names_eval [symmetric]
        gpuInfo_not_vec_name numDevices_not_vec_name image_iff)
  show ?thesis
    using none num_devices_is_raw_count [OF ok, of id e_prev]
    by (simp add: count_examples identity_examples)
qed

text \<open>
  C9. In every cycle and for every label tuple, the \<^verbatim>\<open>memory_used_bytes\<close> series and the
  \<^verbatim>\<open>memory_total_bytes\<close> series are both sent or both missing: each is sent exactly when
  some device identified in the cycle with that label tuple answered the one memory
  information query.
\<close>

theorem memory_series_together:
  "(series (snd (Exporter_Collect float64 lib e)) UsedMemory lvs \<noteq> {}) =
   (series (snd (Exporter_Collect float64 lib e)) TotalMemory lvs \<noteq> {}) \<and>
   (series (snd (Exporter_Collect float64 lib e)) UsedMemory lvs \<noteq> {}) =
   (snd (DeviceGetCount lib) = SUCCESS \<and>
    (\<exists>i device. 0 \<le> i \<and> i < fst (DeviceGetCount lib) \<and>
       identity lib i = Some (device, lvs) \<and> snd (GetMemoryInfo lib device) = SUCCESS))"
proof -
  have used: "(\<exists>i x. 0 \<le> i \<and> i < fst (DeviceGetCount lib) \<and>
        reading float64 lib i UsedMemory = Some (lvs, x)) =
      (\<exists>i device. 0 \<le> i \<and> i < fst (DeviceGetCount lib) \<and>
        identity lib i = Some (device, lvs) \<and> snd (GetMemoryInfo lib device) = SUCCESS)"
    using reading_memory(1) [of float64 lib _ lvs] by blast
  have total: "(\<exists>i x. 0 \<le> i \<and> i < fst (DeviceGetCount lib) \<and>
        reading float64 lib i TotalMemory = Some (lvs, x)) =
      (\<exists>i device. 0 \<le> i \<and> i < fst (DeviceGetCount lib) \<and>
        identity lib i = Some (device, lvs) \<and> snd (GetMemoryInfo lib device) = SUCCESS)"
    using reading_memory(2) [of float64 lib _ lvs] by blast
  show ?thesis
    unfolding series_ne_iff used total by simp
qed

theorem memory_series_together_witness:
  "series (snd (Exporter_Collect id lib_mem e_prev)) UsedMemory [''0'', ''GPU-A'', ''X''] = {} \<and>
   series (snd (Exporter_Collect id lib_mem e_prev)) TotalMemory [''0'', ''GPU-A'', ''X''] = {} \<and>
   series (snd (Exporter_Collect id lib_one e_prev)) UsedMemory [''0'', ''GPU-A'', ''X''] \<noteq> {} \<and>
   series (snd (Exporter_Collect id lib_one e_prev)) TotalMemory [''0'', ''GPU-A'', ''X''] \<noteq> {}"
proof -
  have absent: "series (snd (Exporter_Collect id lib_mem e_prev)) UsedMemory
      [''0'', ''GPU-A'', ''X''] = {}"
    by (simp add: series_def Collect_lib_mem names_eval)
  have present: "series (snd (Exporter_Collect id lib_one e_prev)) UsedMemory
      [''0'', ''GPU-A'', ''X''] \<noteq> {}"
    by (simp add: series_def Collect_lib_one names_eval)
  show ?thesis
    using absent present
      memory_series_together [of id lib_mem e_prev "[''0'', ''GPU-A'', ''X'']"]
      memory_series_together [of id lib_one e_prev "[''0'', ''GPU-A'', ''X'']"]
    by blast
qed

text \<open>
  C10. When the device count query fails, no sample of the \<^verbatim>\<open>num_devices\<close> gauge is sent
  in that cycle, although the gauge still holds the value of the last successful cycle.
\<close>

theorem count_failure_omits_num_devices:
  assumes "snd (DeviceGetCount lib) \<noteq> SUCCESS"
  shows "filter (\<lambda>m. desc_name m = numDevices_name) (snd (Exporter_Collect float64 lib e)) = [] \<and>
         numDevices (fst (Exporter_Collect float64 lib e)) = numDevices e"
  using assms
  by (simp add: Exporter_Collect_fail filter_info_part gpuInfo_not_numDevices [symmetric]
      reset_all_def)

theorem count_failure_omits_num_devices_witness:
  "snd (DeviceGetCount lib_count) \<noteq> SUCCESS \<and>
   numDevices e_prev = 2 \<and>
   filter (\<lambda>m. desc_name m = numDevices_name) (snd (Exporter_Collect id lib_count e_prev)) = [] \<and>
   numDevices (fst (Exporter_Collect id lib_count e_prev)) = 2"
proof -
  have failed: "snd (DeviceGetCount lib_count) \<noteq> SUCCESS"
    by (simp add: count_examples)
  have held: "numDevices e_prev = 2"
    by (simp add: e_prev_eval)
  show ?thesis
    using failed held count_failure_omits_num_devices [OF failed, of id e_prev] by simp
qed

end
